theory Spec2Isabelle
  imports Main
begin

section \<open>allauth/mfa/forms.py: the MFA forms\<close>

text \<open>
  The forms of \<^verbatim>\<open>allauth/mfa/forms.py\<close> are embedded as state-passing functions.
  A method that can raise returns \<open>exn + 'a\<close> (\<open>Inl\<close> the exception). Everything the forms
  reach outside the file (the rate limiter, the authenticator store, the signer, the JSON
  decoder, the WebAuthn helpers) is an argument of the model, gathered in a record of
  functions; the text above each record says what each field stands for.
\<close>

subsection \<open>Exceptions and messages\<close>

text \<open>
  The message of a \<^verbatim>\<open>ValidationError\<close>. The tables \<^verbatim>\<open>error_messages\<close> of the two
  adapters are not part of the file, so a message taken from one of them is the lookup
  itself: the adapter and the key.
  \<^item> \<open>Literal s\<close>: the plain string \<open>s\<close>;
  \<^item> \<open>Gettext s\<close>: \<^verbatim>\<open>_(s)\<close>;
  \<^item> \<open>account_error_message k\<close>: \<^verbatim>\<open>get_account_adapter().error_messages[k]\<close>;
  \<^item> \<open>mfa_error_message k\<close>: \<^verbatim>\<open>get_adapter().error_messages[k]\<close>.
\<close>

datatype message =
    Literal string
  | Gettext string
  | account_error_message string
  | mfa_error_message string

text \<open>
  The exceptions of the model. Django's form machinery catches \<open>ValidationError\<close> only;
  every other exception leaves \<^verbatim>\<open>full_clean\<close> uncaught. \<open>Fault\<close> is any other exception
  a collaborator raises.
\<close>

datatype exn =
    ValidationError message
  | JSONDecodeError
  | KeyError string
  | Fault string

subsection \<open>Python's \<^verbatim>\<open>str\<close> of an integer\<close>

definition digit :: "nat \<Rightarrow> char" where
  "digit d = ''0123456789'' ! d"

function str_nat :: "nat \<Rightarrow> string" where
  "str_nat n = (if n < 10 then [digit n] else str_nat (n div 10) @ [digit (n mod 10)])"
  by pat_completeness auto
termination
  by (relation "measure id") auto

declare str_nat.simps [simp del]

definition str_int :: "int \<Rightarrow> string" where
  "str_int i = (if i < 0 then CHR ''-'' # str_nat (nat (- i)) else str_nat (nat i))"

subsection \<open>The data the code-based forms work on\<close>

record user =
  pk :: int

text \<open>
  \<^verbatim>\<open>Authenticator.Type\<close>: the file names \<^verbatim>\<open>WEBAUTHN\<close> only; \<open>OTHER\<close> is every type that
  is neither TOTP nor WebAuthn.
\<close>

datatype authenticator_type = TOTP | WEBAUTHN | OTHER string

record authenticator =
  auth_pk :: nat
  auth_user :: int
  auth_type :: authenticator_type
  auth_data :: string

record email_address =
  email_user :: int
  email :: string
  verified :: bool

text \<open>
  What the forms do to their collaborators, in order. \<open>ValidateCode a c r\<close>: the wrapped
  authenticator \<open>a\<close> was asked to validate \<open>c\<close> and answered \<open>r\<close>.
\<close>

datatype event =
    Consume string string
  | Clear string string
  | QueryAuthenticators int
  | ValidateCode authenticator string bool
  | QueryEmailAddresses int
  | GetTotpSecret bool
  | ValidateTotpCode string string bool

text \<open>
  The state outside the forms: the rate limiter's state, the authenticator store, the
  \<^verbatim>\<open>EmailAddress\<close> rows, the pending TOTP secret of the session, the number of secrets
  generated so far, and the calls made.
\<close>

record ('rl, 'st) world =
  limiter :: 'rl
  store :: 'st
  email_addresses :: "email_address list"
  session_secret :: "string option"
  secrets_drawn :: nat
  trace :: "event list"

text \<open>
  The collaborators of the code-based forms:
  \<^item> \<open>ratelimit_consume rl action key\<close>: \<^verbatim>\<open>ratelimit.consume(context.request, action=, key=)\<close>,
    the answer and the limiter's new state;
  \<^item> \<open>ratelimit_clear rl action key\<close>: \<^verbatim>\<open>ratelimit.clear(context.request, action=, key=)\<close>;
  \<^item> \<open>authenticator_rows st\<close>: the rows of \<^verbatim>\<open>Authenticator.objects\<close>, in the order the
    database returns them;
  \<^item> \<open>validate_code st a code\<close>: \<^verbatim>\<open>a.wrap().validate_code(code)\<close>, the answer and the
    store's new state;
  \<^item> \<open>validate_totp_code secret code\<close>: \<^verbatim>\<open>totp.validate_totp_code(secret, code)\<close>;
  \<^item> \<open>generate_totp_secret n\<close>: the \<open>n\<close>-th secret the random source yields.
\<close>

record ('rl, 'st) env =
  ratelimit_consume :: "'rl \<Rightarrow> string \<Rightarrow> string \<Rightarrow> bool \<times> 'rl"
  ratelimit_clear :: "'rl \<Rightarrow> string \<Rightarrow> string \<Rightarrow> 'rl"
  authenticator_rows :: "'st \<Rightarrow> authenticator list"
  validate_code :: "'st \<Rightarrow> authenticator \<Rightarrow> string \<Rightarrow> bool \<times> 'st"
  validate_totp_code :: "string \<Rightarrow> string \<Rightarrow> bool"
  generate_totp_secret :: "nat \<Rightarrow> string"

definition log :: "event \<Rightarrow> ('rl, 'st) world \<Rightarrow> ('rl, 'st) world" where
  "log e w = w\<lparr>trace := trace w @ [e]\<rparr>"

text \<open>The kinds of event the statements below ask for.\<close>

fun is_clear :: "event \<Rightarrow> bool" where
  "is_clear (Clear action key) = True"
| "is_clear e = False"

fun is_get_totp_secret :: "event \<Rightarrow> bool" where
  "is_get_totp_secret (GetTotpSecret regenerate) = True"
| "is_get_totp_secret e = False"

fun is_validate_totp_code :: "event \<Rightarrow> bool" where
  "is_validate_totp_code (ValidateTotpCode s code r) = True"
| "is_validate_totp_code e = False"

subsection \<open>AuthenticateForm\<close>

record authenticate_form =
  af_user :: user
  af_authenticator :: "authenticator option"

text \<open>\<^verbatim>\<open>key = f"mfa-auth-user-{str(self.user.pk)}"\<close>\<close>

definition ratelimit_key :: "user \<Rightarrow> string" where
  "ratelimit_key u = ''mfa-auth-user-'' @ str_int (pk u)"

text \<open>
  \<^verbatim>\<open>Authenticator.objects.filter(user=self.user).exclude(type=Authenticator.Type.WEBAUTHN)\<close>
\<close>

definition code_authenticators :: "user \<Rightarrow> authenticator list \<Rightarrow> authenticator list" where
  "code_authenticators u rows =
     filter (\<lambda>a. auth_type a \<noteq> WEBAUTHN) (filter (\<lambda>a. auth_user a = pk u) rows)"

text \<open>
  The \<^verbatim>\<open>for auth in ...\<close> loop of \<^verbatim>\<open>clean_code\<close>: the first authenticator that accepts
  the code ends the loop.
\<close>

fun validate_loop ::
  "('rl, 'st) env \<Rightarrow> string \<Rightarrow> authenticator list \<Rightarrow> ('rl, 'st) world
     \<Rightarrow> authenticator option \<times> ('rl, 'st) world" where
  "validate_loop E code [] w = (None, w)"
| "validate_loop E code (auth # rest) w =
     (let (ok, st') = validate_code E (store w) auth code;
          w' = log (ValidateCode auth code ok) (w\<lparr>store := st'\<rparr>)
      in if ok then (Some auth, w') else validate_loop E code rest w')"

definition AuthenticateForm_clean_code ::
  "('rl, 'st) env \<Rightarrow> authenticate_form \<Rightarrow> string \<Rightarrow> ('rl, 'st) world
     \<Rightarrow> (exn + string) \<times> authenticate_form \<times> ('rl, 'st) world" where
  "AuthenticateForm_clean_code E form code w =
     (let key = ratelimit_key (af_user form);
          (allowed, rl') = ratelimit_consume E (limiter w) ''login_failed'' key;
          w1 = log (Consume ''login_failed'' key) (w\<lparr>limiter := rl'\<rparr>)
      in if \<not> allowed
         then (Inl (ValidationError (account_error_message ''too_many_login_attempts'')), form, w1)
         else
           (let rows = code_authenticators (af_user form) (authenticator_rows E (store w1));
                w2 = log (QueryAuthenticators (pk (af_user form))) w1
            in case validate_loop E code rows w2 of
                 (Some auth, w3) \<Rightarrow>
                   (Inr code,
                    form\<lparr>af_authenticator := Some auth\<rparr>,
                    log (Clear ''login_failed'' key)
                      (w3\<lparr>limiter := ratelimit_clear E (limiter w3) ''login_failed'' key\<rparr>))
               | (None, w3) \<Rightarrow>
                   (Inl (ValidationError (mfa_error_message ''incorrect_code'')), form, w3)))"

subsection \<open>The rate limiter's contract\<close>

text \<open>
  Modelled from the spec: \<^verbatim>\<open>allauth.core.ratelimit\<close> is not part of the file. The spec's
  \<^verbatim>\<open>RateLimitBudget\<close> is keyed by action and key; \<open>consume\<close> decrements the remaining budget
  and answers false once it is exhausted; \<open>clear\<close> resets the budget (to \<open>N\<close>) at once.
\<close>

type_synonym budget = "string \<times> string \<Rightarrow> nat"

definition budget_consume :: "budget \<Rightarrow> string \<Rightarrow> string \<Rightarrow> bool \<times> budget" where
  "budget_consume remaining action key =
     (if 0 < remaining (action, key)
      then (True, remaining((action, key) := remaining (action, key) - 1))
      else (False, remaining))"

definition budget_clear :: "nat \<Rightarrow> budget \<Rightarrow> string \<Rightarrow> string \<Rightarrow> budget" where
  "budget_clear N remaining action key = remaining((action, key) := N)"

subsection \<open>ActivateTOTPForm\<close>

text \<open>
  Modelled from the spec: \<^verbatim>\<open>totp.get_totp_secret\<close> is not part of the file. The spec's
  \<^verbatim>\<open>get_secret(regenerate)\<close>: if \<open>regenerate\<close> is true or the session holds no pending secret,
  a new secret is generated (and becomes the pending one); otherwise the pending secret
  is returned.
\<close>

definition get_totp_secret ::
  "('rl, 'st) env \<Rightarrow> bool \<Rightarrow> ('rl, 'st) world \<Rightarrow> string \<times> ('rl, 'st) world" where
  "get_totp_secret E regenerate w =
     (let w1 = log (GetTotpSecret regenerate) w
      in case (if regenerate then None else session_secret w1) of
           Some s \<Rightarrow> (s, w1)
         | None \<Rightarrow>
             (let s = generate_totp_secret E (secrets_drawn w1)
              in (s, w1\<lparr>session_secret := Some s, secrets_drawn := Suc (secrets_drawn w1)\<rparr>)))"

record activate_totp_form =
  atf_user :: user
  email_verified :: bool
  is_bound :: bool
  secret :: string

text \<open>
  \<^verbatim>\<open>__init__\<close>: \<open>bound\<close> is Django's \<^verbatim>\<open>is_bound\<close> (the form was given data).
\<close>

definition ActivateTOTPForm_init ::
  "('rl, 'st) env \<Rightarrow> user \<Rightarrow> bool \<Rightarrow> ('rl, 'st) world
     \<Rightarrow> activate_totp_form \<times> ('rl, 'st) world" where
  "ActivateTOTPForm_init E u bound w =
     (let ev = \<not> list_ex (\<lambda>e. email_user e = pk u \<and> \<not> verified e) (email_addresses w);
          w1 = log (QueryEmailAddresses (pk u)) w;
          (s, w2) = get_totp_secret E (\<not> bound) w1
      in (\<lparr>atf_user = u, email_verified = ev, is_bound = bound, secret = s\<rparr>, w2))"

text \<open>The body of the \<^verbatim>\<open>try\<close> of \<^verbatim>\<open>clean_code\<close>.\<close>

definition ActivateTOTPForm_clean_code_try ::
  "('rl, 'st) env \<Rightarrow> activate_totp_form \<Rightarrow> string \<Rightarrow> ('rl, 'st) world
     \<Rightarrow> (exn + string) \<times> ('rl, 'st) world" where
  "ActivateTOTPForm_clean_code_try E form code w =
     (if \<not> email_verified form
      then (Inl (ValidationError (mfa_error_message ''unverified_email'')), w)
      else
        (let ok = validate_totp_code E (secret form) code;
             w1 = log (ValidateTotpCode (secret form) code ok) w
         in if \<not> ok
            then (Inl (ValidationError (mfa_error_message ''incorrect_code'')), w1)
            else (Inr code, w1)))"

text \<open>
  \<^verbatim>\<open>clean_code\<close>: the handler \<^verbatim>\<open>except forms.ValidationError as e\<close> replaces the form's
  secret by a regenerated one and raises \<open>e\<close> again.
\<close>

definition ActivateTOTPForm_clean_code ::
  "('rl, 'st) env \<Rightarrow> activate_totp_form \<Rightarrow> string \<Rightarrow> ('rl, 'st) world
     \<Rightarrow> (exn + string) \<times> activate_totp_form \<times> ('rl, 'st) world" where
  "ActivateTOTPForm_clean_code E form code w =
     (case ActivateTOTPForm_clean_code_try E form code w of
        (Inl (ValidationError e), w1) \<Rightarrow>
          (let (s, w2) = get_totp_secret E True w1
           in (Inl (ValidationError e), form\<lparr>secret := s\<rparr>, w2))
      | (r, w1) \<Rightarrow> (r, form, w1))"

subsection \<open>Django's \<^verbatim>\<open>Signer\<close>\<close>

text \<open>
  \<^verbatim>\<open>django.core.signing.Signer()\<close> with its defaults: the separator is \<^verbatim>\<open>:\<close>;
  \<open>signature v\<close> is the signature of \<open>v\<close> under the current key, \<open>fallback_signatures\<close>
  those under the fallback keys. \<^verbatim>\<open>sign\<close> appends the separator and the signature;
  \<^verbatim>\<open>unsign\<close> raises \<^verbatim>\<open>BadSignature\<close> (here \<open>None\<close>) when the value holds no separator or
  the part after the last separator is the signature of the part before it under no key.
\<close>

record signer =
  signature :: "string \<Rightarrow> string"
  fallback_signatures :: "(string \<Rightarrow> string) list"

definition Signer_sign :: "signer \<Rightarrow> string \<Rightarrow> string" where
  "Signer_sign S v = v @ '':'' @ signature S v"

definition rsplit_sep :: "string \<Rightarrow> string \<times> string" where
  "rsplit_sep signed_value =
     (rev (tl (dropWhile (\<lambda>c. c \<noteq> CHR '':'') (rev signed_value))),
      rev (takeWhile (\<lambda>c. c \<noteq> CHR '':'') (rev signed_value)))"

definition Signer_unsign :: "signer \<Rightarrow> string \<Rightarrow> string option" where
  "Signer_unsign S signed_value =
     (if CHR '':'' \<notin> set signed_value then None
      else
        (let (v, sig) = rsplit_sep signed_value
         in if list_ex (\<lambda>f. f v = sig) (signature S # fallback_signatures S)
            then Some v else None))"

subsection \<open>Django's form machinery\<close>

text \<open>
  The values \<^verbatim>\<open>cleaned_data\<close> holds: a string, a boolean, a decoded JSON value \<open>'j\<close>,
  a parsed credential \<open>'c\<close>, the authenticator data \<open>'a\<close> a completed ceremony returns.
\<close>

datatype ('j, 'c, 'a) pyval =
    Str string
  | Bool bool
  | Json 'j
  | Credential 'c
  | AuthenticatorData 'a

text \<open>What the WebAuthn forms do, in order.\<close>

datatype ('j, 'c) call =
    AddError "string option" message
  | GetCredentials int
  | CompleteAuthentication 'j 'c
  | CompleteRegistration 'j 'c

text \<open>
  A bound form: the submitted data, \<^verbatim>\<open>cleaned_data\<close>, the errors in the order they were
  added (\<open>None\<close> is Django's \<^verbatim>\<open>NON_FIELD_ERRORS\<close>), and the calls made.
\<close>

record ('j, 'c, 'a) form =
  data :: "string \<rightharpoonup> string"
  cleaned_data :: "string \<rightharpoonup> ('j, 'c, 'a) pyval"
  errors :: "(string option \<times> message) list"
  calls :: "('j, 'c) call list"

text \<open>
  The collaborators of the WebAuthn forms:
  \<^item> \<open>the_signer\<close>: \<^verbatim>\<open>Signer()\<close>;
  \<^item> \<open>json_loads s\<close>: \<^verbatim>\<open>json.loads(s)\<close>, \<open>None\<close> when it raises \<^verbatim>\<open>JSONDecodeError\<close>;
  \<^item> \<open>json_truthy v\<close>: \<^verbatim>\<open>bool(v)\<close> of a decoded value; \<open>credential_truthy c\<close>: of a
    parsed credential;
  \<^item> \<open>parse_authentication_credential\<close>, \<open>parse_registration_credential\<close>,
    \<open>get_credentials\<close>, \<open>complete_authentication\<close>, \<open>complete_registration\<close>: the functions
    of \<^verbatim>\<open>allauth.mfa.webauthn\<close> of these names, with the exception each may raise;
  \<^item> \<open>is_user_verified c\<close>:
    \<^verbatim>\<open>c["attestation_object"].auth_data.is_user_verified()\<close>.
\<close>

record ('j, 'c, 'k, 'a) webauthn_env =
  the_signer :: signer
  json_loads :: "string \<Rightarrow> 'j option"
  json_truthy :: "'j \<Rightarrow> bool"
  credential_truthy :: "'c \<Rightarrow> bool"
  parse_authentication_credential :: "'j \<Rightarrow> exn + 'c"
  parse_registration_credential :: "'j \<Rightarrow> exn + 'c"
  is_user_verified :: "'c \<Rightarrow> bool"
  get_credentials :: "user \<Rightarrow> exn + 'k"
  complete_authentication :: "'j \<Rightarrow> 'k \<Rightarrow> 'c \<Rightarrow> exn + 'a"
  complete_registration :: "'j \<Rightarrow> 'c \<Rightarrow> exn + 'a"

text \<open>\<^verbatim>\<open>bool(v)\<close>, and \<^verbatim>\<open>bool(d.get(k))\<close> (\<^verbatim>\<open>None\<close> is false).\<close>

fun truth :: "('j, 'c, 'k, 'a) webauthn_env \<Rightarrow> ('j, 'c, 'a) pyval \<Rightarrow> bool" where
  "truth W (Str s) = (s \<noteq> [])"
| "truth W (Bool b) = b"
| "truth W (Json j) = json_truthy W j"
| "truth W (Credential c) = credential_truthy W c"
| "truth W (AuthenticatorData a) = True"

definition truth_opt ::
  "('j, 'c, 'k, 'a) webauthn_env \<Rightarrow> ('j, 'c, 'a) pyval option \<Rightarrow> bool" where
  "truth_opt W v = (case v of None \<Rightarrow> False | Some x \<Rightarrow> truth W x)"

text \<open>
  \<^verbatim>\<open>BaseForm.add_error(field, error)\<close>: the error is appended, and a field with an error
  is removed from \<^verbatim>\<open>cleaned_data\<close>.
\<close>

definition add_error ::
  "string option \<Rightarrow> message \<Rightarrow> ('j, 'c, 'a) form \<Rightarrow> ('j, 'c, 'a) form" where
  "add_error field m f =
     f\<lparr>cleaned_data := (case field of None \<Rightarrow> cleaned_data f | Some n \<Rightarrow> (cleaned_data f)(n := None)),
       errors := errors f @ [(field, m)],
       calls := calls f @ [AddError field m]\<rparr>"

text \<open>
  \<^verbatim>\<open>str.isspace\<close> on the code points below 256, and \<^verbatim>\<open>str.strip()\<close>.
\<close>

definition isspace :: "char \<Rightarrow> bool" where
  "isspace c = ((of_char c :: nat) \<in> set [9, 10, 11, 12, 13, 28, 29, 30, 31, 32, 133, 160])"

definition strip :: "string \<Rightarrow> string" where
  "strip s = rev (dropWhile isspace (rev (dropWhile isspace s)))"

text \<open>
  \<^verbatim>\<open>CharField.clean(value)\<close> with the defaults \<^verbatim>\<open>strip=True\<close>, \<^verbatim>\<open>empty_value=""\<close>:
  \<^verbatim>\<open>to_python\<close>, the \<^verbatim>\<open>required\<close> check, the validator that refuses null characters.
  \<open>raw\<close> is \<^verbatim>\<open>data.get(name)\<close>.
\<close>

definition CharField_clean :: "bool \<Rightarrow> string option \<Rightarrow> exn + string" where
  "CharField_clean required raw =
     (let v = (case raw of None \<Rightarrow> [] | Some s \<Rightarrow> strip s)
      in if v = []
         then (if required then Inl (ValidationError (Gettext ''This field is required.''))
               else Inr [])
         else if CHR 0x00 \<in> set v
         then Inl (ValidationError (Gettext ''Null characters are not allowed.''))
         else Inr v)"

text \<open>
  One round of the loop of \<^verbatim>\<open>BaseForm._clean_fields\<close> for a \<^verbatim>\<open>CharField\<close> named \<open>name\<close>
  whose form has a method \<^verbatim>\<open>clean_<name>\<close>: a \<^verbatim>\<open>ValidationError\<close> becomes an error of the
  field; any other exception is not caught (\<open>Some e\<close>).
\<close>

definition clean_field ::
  "string \<Rightarrow> bool \<Rightarrow> (('j, 'c, 'a) form \<Rightarrow> exn + ('j, 'c, 'a) pyval)
     \<Rightarrow> ('j, 'c, 'a) form \<Rightarrow> exn option \<times> ('j, 'c, 'a) form" where
  "clean_field name required clean_method f =
     (case CharField_clean required (data f name) of
        Inl (ValidationError m) \<Rightarrow> (None, add_error (Some name) m f)
      | Inl e \<Rightarrow> (Some e, f)
      | Inr v \<Rightarrow>
          (let f1 = f\<lparr>cleaned_data := (cleaned_data f)(name \<mapsto> Str v)\<rparr>
           in case clean_method f1 of
                Inr x \<Rightarrow> (None, f1\<lparr>cleaned_data := (cleaned_data f1)(name \<mapsto> x)\<rparr>)
              | Inl (ValidationError m) \<Rightarrow> (None, add_error (Some name) m f1)
              | Inl e \<Rightarrow> (Some e, f1)))"

text \<open>
  \<^verbatim>\<open>BaseForm._clean_form\<close>: a \<^verbatim>\<open>ValidationError\<close> of \<^verbatim>\<open>clean()\<close> becomes a non-field error,
  the dictionary it returns becomes \<^verbatim>\<open>cleaned_data\<close>; any other exception is not caught.
\<close>

definition clean_form ::
  "(('j, 'c, 'a) form \<Rightarrow> (exn + (string \<rightharpoonup> ('j, 'c, 'a) pyval)) \<times> ('j, 'c, 'a) form)
     \<Rightarrow> ('j, 'c, 'a) form \<Rightarrow> exn option \<times> ('j, 'c, 'a) form" where
  "clean_form clean_method f =
     (case clean_method f of
        (Inl (ValidationError m), f1) \<Rightarrow> (None, add_error None m f1)
      | (Inl e, f1) \<Rightarrow> (Some e, f1)
      | (Inr cd, f1) \<Rightarrow> (None, f1\<lparr>cleaned_data := cd\<rparr>))"

text \<open>\<^verbatim>\<open>is_valid()\<close> of a bound form whose \<^verbatim>\<open>full_clean\<close> has returned.\<close>

definition is_valid :: "('j, 'c, 'a) form \<Rightarrow> bool" where
  "is_valid f = (errors f = [])"

subsection \<open>ActivateTOTPForm as a whole\<close>

text \<open>
  What \<^verbatim>\<open>full_clean\<close> leaves of a bound \<^verbatim>\<open>ActivateTOTPForm\<close>: the exception that left it
  uncaught, if any; the form's errors; \<^verbatim>\<open>cleaned_data.get("code")\<close>; the form and the
  state outside it.
\<close>

record ('rl, 'st) activation =
  uncaught :: "exn option"
  form_errors :: "(string option \<times> message) list"
  cleaned_code :: "string option"
  form_after :: activate_totp_form
  world_after :: "('rl, 'st) world"

text \<open>
  \<^verbatim>\<open>full_clean\<close> of \<^verbatim>\<open>ActivateTOTPForm\<close> bound to the data \<open>d\<close>. The form has the one field
  \<^verbatim>\<open>code\<close>, a \<^verbatim>\<open>CharField\<close> with the default \<^verbatim>\<open>required=True\<close>: \<^verbatim>\<open>_clean_fields\<close> cleans
  the field and calls \<^verbatim>\<open>clean_code\<close> only when the field's own checks pass; a
  \<^verbatim>\<open>ValidationError\<close> of either becomes an error of the field. The form does not
  override \<^verbatim>\<open>clean\<close>.
\<close>

definition ActivateTOTPForm_full_clean ::
  "('rl, 'st) env \<Rightarrow> activate_totp_form \<Rightarrow> (string \<rightharpoonup> string) \<Rightarrow> ('rl, 'st) world
     \<Rightarrow> ('rl, 'st) activation" where
  "ActivateTOTPForm_full_clean E form d w =
     (case CharField_clean True (d ''code'') of
        Inl (ValidationError m) \<Rightarrow>
          \<lparr>uncaught = None, form_errors = [(Some ''code'', m)], cleaned_code = None,
           form_after = form, world_after = w\<rparr>
      | Inl e \<Rightarrow>
          \<lparr>uncaught = Some e, form_errors = [], cleaned_code = None,
           form_after = form, world_after = w\<rparr>
      | Inr v \<Rightarrow>
          (case ActivateTOTPForm_clean_code E form v w of
             (Inr x, form', w') \<Rightarrow>
               \<lparr>uncaught = None, form_errors = [], cleaned_code = Some x,
                form_after = form', world_after = w'\<rparr>
           | (Inl (ValidationError m), form', w') \<Rightarrow>
               \<lparr>uncaught = None, form_errors = [(Some ''code'', m)], cleaned_code = None,
                form_after = form', world_after = w'\<rparr>
           | (Inl e, form', w') \<Rightarrow>
               \<lparr>uncaught = Some e, form_errors = [], cleaned_code = Some v,
                form_after = form', world_after = w'\<rparr>))"

subsection \<open>AuthenticateWebAuthnForm and AddWebAuthnForm\<close>

text \<open>
  \<^verbatim>\<open>clean_signed_state\<close>, the same in both classes:
  \<^verbatim>\<open>json.loads(Signer().unsign(signed_state))\<close> under \<^verbatim>\<open>except BadSignature\<close>.
\<close>

definition clean_signed_state ::
  "('j, 'c, 'k, 'a) webauthn_env \<Rightarrow> ('j, 'c, 'a) form \<Rightarrow> exn + ('j, 'c, 'a) pyval" where
  "clean_signed_state W f =
     (case cleaned_data f ''signed_state'' of
        None \<Rightarrow> Inl (KeyError ''signed_state'')
      | Some (Str signed_state) \<Rightarrow>
          (case Signer_unsign (the_signer W) signed_state of
             None \<Rightarrow> Inl (ValidationError (Literal ''Tampered form.''))
           | Some payload \<Rightarrow>
               (case json_loads W payload of
                  None \<Rightarrow> Inl JSONDecodeError
                | Some v \<Rightarrow> Inr (Json v)))
      | Some _ \<Rightarrow> Inl (Fault ''TypeError''))"

text \<open>
  \<^verbatim>\<open>clean_credential\<close>: \<^verbatim>\<open>parse(json.loads(credential))\<close>, where \<open>parse\<close> is
  \<^verbatim>\<open>parse_authentication_credential\<close> in \<^verbatim>\<open>AuthenticateWebAuthnForm\<close> and
  \<^verbatim>\<open>parse_registration_credential\<close> in \<^verbatim>\<open>AddWebAuthnForm\<close>.
\<close>

definition clean_credential ::
  "('j, 'c, 'k, 'a) webauthn_env \<Rightarrow> ('j \<Rightarrow> exn + 'c) \<Rightarrow> ('j, 'c, 'a) form
     \<Rightarrow> exn + ('j, 'c, 'a) pyval" where
  "clean_credential W parse f =
     (case cleaned_data f ''credential'' of
        None \<Rightarrow> Inl (KeyError ''credential'')
      | Some (Str credential) \<Rightarrow>
          (case json_loads W credential of
             None \<Rightarrow> Inl JSONDecodeError
           | Some j \<Rightarrow>
               (case parse j of Inl e \<Rightarrow> Inl e | Inr c \<Rightarrow> Inr (Credential c)))
      | Some _ \<Rightarrow> Inl (Fault ''TypeError''))"

text \<open>
  \<^verbatim>\<open>AuthenticateWebAuthnForm.clean\<close>. \<^verbatim>\<open>cleaned_data["credential"]\<close> raises
  \<^verbatim>\<open>KeyError\<close> when the key is absent; the arguments of \<^verbatim>\<open>complete_authentication\<close> are
  evaluated from left to right.
\<close>

definition AuthenticateWebAuthnForm_clean ::
  "('j, 'c, 'k, 'a) webauthn_env \<Rightarrow> user \<Rightarrow> ('j, 'c, 'a) form
     \<Rightarrow> (exn + (string \<rightharpoonup> ('j, 'c, 'a) pyval)) \<times> ('j, 'c, 'a) form" where
  "AuthenticateWebAuthnForm_clean W u f =
     (let state = cleaned_data f ''signed_state''
      in case cleaned_data f ''credential'' of
           None \<Rightarrow> (Inl (KeyError ''credential''), f)
         | Some cred \<Rightarrow>
             if truth W cred \<and> truth_opt W state
             then
               (let f1 = f\<lparr>calls := calls f @ [GetCredentials (pk u)]\<rparr>
                in case get_credentials W u of
                     Inl e \<Rightarrow> (Inl e, f1)
                   | Inr creds \<Rightarrow>
                       (case (state, cred) of
                          (Some (Json s), Credential c) \<Rightarrow>
                            (let f2 = f1\<lparr>calls := calls f1 @ [CompleteAuthentication s c]\<rparr>
                             in case complete_authentication W s creds c of
                                  Inl e \<Rightarrow> (Inl e, f2)
                                | Inr ad \<Rightarrow>
                                    (let f3 = f2\<lparr>cleaned_data :=
                                           (cleaned_data f2)(''authenticator_data'' \<mapsto> AuthenticatorData ad)\<rparr>
                                     in (Inr (cleaned_data f3), f3)))
                        | _ \<Rightarrow> (Inl (Fault ''TypeError''), f1)))
             else (Inr (cleaned_data f), f))"

text \<open>
  \<^verbatim>\<open>full_clean\<close> of a bound \<^verbatim>\<open>AuthenticateWebAuthnForm\<close>: the fields in the order of their
  declaration (\<^verbatim>\<open>signed_state\<close>, not required; \<^verbatim>\<open>credential\<close>, required), then
  \<^verbatim>\<open>_clean_form\<close>. \<open>Some e\<close>: the exception \<open>e\<close> left \<^verbatim>\<open>full_clean\<close> uncaught.
\<close>

definition AuthenticateWebAuthnForm_full_clean ::
  "('j, 'c, 'k, 'a) webauthn_env \<Rightarrow> user \<Rightarrow> ('j, 'c, 'a) form
     \<Rightarrow> exn option \<times> ('j, 'c, 'a) form" where
  "AuthenticateWebAuthnForm_full_clean W u f0 =
     (let f = f0\<lparr>cleaned_data := Map.empty, errors := []\<rparr>
      in case clean_field ''signed_state'' False (clean_signed_state W) f of
           (Some e, f1) \<Rightarrow> (Some e, f1)
         | (None, f1) \<Rightarrow>
             (case clean_field ''credential'' True
                     (clean_credential W (parse_authentication_credential W)) f1 of
                (Some e, f2) \<Rightarrow> (Some e, f2)
              | (None, f2) \<Rightarrow> clean_form (AuthenticateWebAuthnForm_clean W u) f2))"

text \<open>
  The first \<^verbatim>\<open>if\<close> of \<^verbatim>\<open>AddWebAuthnForm.clean\<close>: the passwordless check. Python's
  \<^verbatim>\<open>and\<close> does not evaluate the credential's flag when \<^verbatim>\<open>passwordless\<close> is false.
\<close>

definition passwordless_check ::
  "('j, 'c, 'k, 'a) webauthn_env \<Rightarrow> ('j, 'c, 'a) form \<Rightarrow> exn option \<times> ('j, 'c, 'a) form" where
  "passwordless_check W f =
     (let credential = cleaned_data f ''credential'';
          passwordless = cleaned_data f ''passwordless''
      in if truth_opt W credential \<and> truth_opt W passwordless
         then
           (case credential of
              Some (Credential c) \<Rightarrow>
                if \<not> is_user_verified W c
                then (None, add_error None
                        (Gettext ''This key does not support passwordless operation.'') f)
                else (None, f)
            | _ \<Rightarrow> (Some (Fault ''TypeError''), f))
         else (None, f))"

text \<open>\<^verbatim>\<open>AddWebAuthnForm.clean\<close>.\<close>

definition AddWebAuthnForm_clean ::
  "('j, 'c, 'k, 'a) webauthn_env \<Rightarrow> ('j, 'c, 'a) form
     \<Rightarrow> (exn + (string \<rightharpoonup> ('j, 'c, 'a) pyval)) \<times> ('j, 'c, 'a) form" where
  "AddWebAuthnForm_clean W f =
     (let state = cleaned_data f ''signed_state'';
          credential = cleaned_data f ''credential''
      in case passwordless_check W f of
           (Some e, f1) \<Rightarrow> (Inl e, f1)
         | (None, f1) \<Rightarrow>
             if truth_opt W credential \<and> truth_opt W state
             then
               (case (state, credential) of
                  (Some (Json s), Some (Credential c)) \<Rightarrow>
                    (let f2 = f1\<lparr>calls := calls f1 @ [CompleteRegistration s c]\<rparr>
                     in case complete_registration W s c of
                          Inl e \<Rightarrow> (Inl e, f2)
                        | Inr ad \<Rightarrow>
                            (let f3 = f2\<lparr>cleaned_data :=
                                   (cleaned_data f2)(''authenticator_data'' \<mapsto> AuthenticatorData ad)\<rparr>
                             in (Inr (cleaned_data f3), f3)))
                | _ \<Rightarrow> (Inl (Fault ''TypeError''), f1))
             else (Inr (cleaned_data f1), f1))"

section \<open>Test doubles\<close>

text \<open>
  Concrete collaborators, for running the forms: a limiter with the spec's budget (three
  attempts), a store whose authenticators accept the code equal to their data, a TOTP
  validator that accepts the secret itself, a signer whose signature is a checksum, and a
  decoder that knows four JSON documents.
\<close>

definition demo_rows :: "authenticator list" where
  "demo_rows =
     [\<lparr>auth_pk = 1, auth_user = 7, auth_type = WEBAUTHN, auth_data = ''123456''\<rparr>,
      \<lparr>auth_pk = 2, auth_user = 8, auth_type = TOTP, auth_data = ''123456''\<rparr>,
      \<lparr>auth_pk = 3, auth_user = 7, auth_type = TOTP, auth_data = ''654321''\<rparr>,
      \<lparr>auth_pk = 4, auth_user = 7, auth_type = OTHER ''recovery_codes'', auth_data = ''123456''\<rparr>,
      \<lparr>auth_pk = 5, auth_user = 7, auth_type = TOTP, auth_data = ''123456''\<rparr>]"

definition demo_env :: "(budget, authenticator list) env" where
  "demo_env =
     \<lparr>ratelimit_consume = budget_consume,
      ratelimit_clear = budget_clear 3,
      authenticator_rows = (\<lambda>st. st),
      validate_code = (\<lambda>st a code. (auth_data a = code, st)),
      validate_totp_code = (\<lambda>s code. code = s),
      generate_totp_secret = (\<lambda>n. ''SECRET'' @ str_nat n)\<rparr>"

definition demo_emails :: "email_address list" where
  "demo_emails =
     [\<lparr>email_user = 7, email = ''a@example.com'', verified = True\<rparr>,
      \<lparr>email_user = 8, email = ''b@example.com'', verified = False\<rparr>,
      \<lparr>email_user = 8, email = ''c@example.com'', verified = True\<rparr>]"

definition demo_world :: "nat \<Rightarrow> (budget, authenticator list) world" where
  "demo_world n =
     \<lparr>limiter = (\<lambda>_. n), store = demo_rows, email_addresses = demo_emails,
      session_secret = Some ''PENDING'', secrets_drawn = 0, trace = []\<rparr>"

definition demo_form :: authenticate_form where
  "demo_form = \<lparr>af_user = \<lparr>pk = 7\<rparr>, af_authenticator = None\<rparr>"

datatype demo_json = JNull | JNumber nat | JArray "demo_json list" | JObject "(string \<times> demo_json) list"

definition demo_loads :: "string \<Rightarrow> demo_json option" where
  "demo_loads s =
     (if s = ''null'' then Some JNull
      else if s = ''{}'' then Some (JObject [])
      else if s = ''[0]'' then Some (JArray [JNumber 0])
      else if s = ''[1]'' then Some (JArray [JNumber 1])
      else None)"

fun demo_truthy :: "demo_json \<Rightarrow> bool" where
  "demo_truthy JNull = False"
| "demo_truthy (JNumber n) = (n \<noteq> 0)"
| "demo_truthy (JArray xs) = (xs \<noteq> [])"
| "demo_truthy (JObject kvs) = (kvs \<noteq> [])"

record demo_credential =
  user_verified :: bool

fun demo_parse :: "demo_json \<Rightarrow> exn + demo_credential" where
  "demo_parse (JArray [JNumber n]) = Inr \<lparr>user_verified = (n \<noteq> 0)\<rparr>"
| "demo_parse j = Inl (Fault ''ValueError'')"

definition demo_signature :: "string \<Rightarrow> string" where
  "demo_signature v = str_nat (foldl (\<lambda>h c. (31 * h + of_char c) mod 65521) 7 v)"

definition demo_signer :: signer where
  "demo_signer = \<lparr>signature = demo_signature, fallback_signatures = []\<rparr>"

definition demo_webauthn :: "(demo_json, demo_credential, unit, string) webauthn_env" where
  "demo_webauthn =
     \<lparr>the_signer = demo_signer,
      json_loads = demo_loads,
      json_truthy = demo_truthy,
      credential_truthy = (\<lambda>c. True),
      parse_authentication_credential = demo_parse,
      parse_registration_credential = demo_parse,
      is_user_verified = user_verified,
      get_credentials = (\<lambda>u. Inr ()),
      complete_authentication = (\<lambda>s k c. Inr ''authenticator data''),
      complete_registration = (\<lambda>s c. Inr ''authenticator data'')\<rparr>"

definition demo_bound_form ::
  "(string \<rightharpoonup> string) \<Rightarrow> (demo_json, demo_credential, string) form" where
  "demo_bound_form d = \<lparr>data = d, cleaned_data = Map.empty, errors = [], calls = []\<rparr>"

text \<open>
  A form of \<^verbatim>\<open>AddWebAuthnForm\<close> after \<^verbatim>\<open>_clean_fields\<close>: passwordless requested, a
  credential whose user-verification flag is false, a decoded state.
\<close>

definition demo_cleaned :: "(demo_json, demo_credential, string) form" where
  "demo_cleaned =
     \<lparr>data = Map.empty,
      cleaned_data = [''name'' \<mapsto> Str ''key'', ''passwordless'' \<mapsto> Bool True,
                      ''credential'' \<mapsto> Credential \<lparr>user_verified = False\<rparr>,
                      ''signed_state'' \<mapsto> Json (JArray [JNumber 1])],
      errors = [], calls = []\<rparr>"

text \<open>A form at the call of \<^verbatim>\<open>clean_signed_state\<close>, for a submitted token.\<close>

definition demo_signed_form :: "string \<Rightarrow> (demo_json, demo_credential, string) form" where
  "demo_signed_form signed_state =
     \<lparr>data = [''signed_state'' \<mapsto> signed_state],
      cleaned_data = [''signed_state'' \<mapsto> Str signed_state],
      errors = [], calls = []\<rparr>"

section \<open>The code-based authentication form\<close>

lemma validate_loop_frame:
  "validate_loop E code rows w = (r, w') \<Longrightarrow>
     limiter w' = limiter w \<and> session_secret w' = session_secret w \<and>
     secrets_drawn w' = secrets_drawn w \<and> email_addresses w' = email_addresses w"
  by (induction rows arbitrary: w) (auto simp: log_def Let_def split: prod.splits if_splits)

lemma validate_loop_None:
  "validate_loop E code rows w = (None, w') \<Longrightarrow>
     trace w' = trace w @ map (\<lambda>b. ValidateCode b code False) rows"
  by (induction rows arbitrary: w) (auto simp: log_def Let_def split: prod.splits if_splits)

lemma validate_loop_Some:
  "validate_loop E code rows w = (Some a, w') \<Longrightarrow>
     \<exists>pre post. rows = pre @ a # post \<and>
       trace w' = trace w @ map (\<lambda>b. ValidateCode b code False) pre @ [ValidateCode a code True]"
proof (induction rows arbitrary: w)
  case Nil
  then show ?case by simp
next
  case (Cons b rows)
  obtain ok st' where v: "validate_code E (store w) b code = (ok, st')"
    by (cases "validate_code E (store w) b code")
  show ?case
  proof (cases ok)
    case True
    with Cons.prems v have "a = b" "trace w' = trace w @ [ValidateCode b code True]"
      by (auto simp: log_def Let_def)
    then have "b # rows = [] @ a # rows \<and>
        trace w' = trace w @ map (\<lambda>b. ValidateCode b code False) [] @ [ValidateCode a code True]"
      by simp
    then show ?thesis by blast
  next
    case False
    let ?w1 = "log (ValidateCode b code False) (w\<lparr>store := st'\<rparr>)"
    from Cons.prems v False have "validate_loop E code rows ?w1 = (Some a, w')"
      by (simp add: Let_def)
    from Cons.IH [OF this] obtain pre post where
      "rows = pre @ a # post"
      "trace w' = trace ?w1 @ map (\<lambda>b. ValidateCode b code False) pre @ [ValidateCode a code True]"
      by blast
    then have "b # rows = (b # pre) @ a # post \<and>
        trace w' = trace w @ map (\<lambda>b. ValidateCode b code False) (b # pre) @ [ValidateCode a code True]"
      by (simp add: log_def)
    then show ?thesis by blast
  qed
qed

lemma clean_code_denied:
  assumes "ratelimit_consume E (limiter w) ''login_failed'' (ratelimit_key (af_user form)) = (False, rl1)"
  shows "AuthenticateForm_clean_code E form code w =
     (Inl (ValidationError (account_error_message ''too_many_login_attempts'')), form,
      w\<lparr>limiter := rl1, trace := trace w @ [Consume ''login_failed'' (ratelimit_key (af_user form))]\<rparr>)"
  using assms by (simp add: AuthenticateForm_clean_code_def log_def Let_def)

lemma clean_code_allowed:
  assumes "ratelimit_consume E (limiter w) ''login_failed'' (ratelimit_key (af_user form)) = (True, rl1)"
  shows "AuthenticateForm_clean_code E form code w =
     (case validate_loop E code (code_authenticators (af_user form) (authenticator_rows E (store w)))
             (w\<lparr>limiter := rl1,
                trace := trace w @ [Consume ''login_failed'' (ratelimit_key (af_user form)),
                                    QueryAuthenticators (pk (af_user form))]\<rparr>) of
        (Some auth, w3) \<Rightarrow>
          (Inr code, form\<lparr>af_authenticator := Some auth\<rparr>,
           w3\<lparr>limiter := ratelimit_clear E (limiter w3) ''login_failed'' (ratelimit_key (af_user form)),
              trace := trace w3 @ [Clear ''login_failed'' (ratelimit_key (af_user form))]\<rparr>)
      | (None, w3) \<Rightarrow> (Inl (ValidationError (mfa_error_message ''incorrect_code'')), form, w3))"
  using assms by (simp add: AuthenticateForm_clean_code_def log_def Let_def split: prod.splits option.splits)

text \<open>
  Claim C1. Every run of \<^verbatim>\<open>AuthenticateForm.clean_code\<close> starts by consuming the rate
  limiter, with the action \<^verbatim>\<open>login_failed\<close> and the key \<^verbatim>\<open>mfa-auth-user-<pk>\<close> of the
  user. When \<^verbatim>\<open>consume\<close> answers false, the method raises the validation error
  \<^verbatim>\<open>too_many_login_attempts\<close> of the account adapter, which is not the \<^verbatim>\<open>incorrect_code\<close>
  error; the form and the store are left as they were, and the only call made is the
  consumption: no authenticator is queried, no \<^verbatim>\<open>validate_code\<close> is evaluated.
\<close>

theorem AuthenticateForm_consumes_first:
  "(\<exists>evs. trace (snd (snd (AuthenticateForm_clean_code E form code w))) =
       trace w @ Consume ''login_failed'' (''mfa-auth-user-'' @ str_int (pk (af_user form))) # evs)
   \<and> (\<not> fst (ratelimit_consume E (limiter w) ''login_failed'' (ratelimit_key (af_user form))) \<longrightarrow>
        AuthenticateForm_clean_code E form code w =
          (Inl (ValidationError (account_error_message ''too_many_login_attempts'')), form,
           w\<lparr>limiter := snd (ratelimit_consume E (limiter w) ''login_failed'' (ratelimit_key (af_user form))),
             trace := trace w @ [Consume ''login_failed'' (ratelimit_key (af_user form))]\<rparr>))
   \<and> ValidationError (account_error_message ''too_many_login_attempts'') \<noteq>
       ValidationError (mfa_error_message ''incorrect_code'')"
proof -
  let ?key = "ratelimit_key (af_user form)"
  obtain allowed rl1 where c: "ratelimit_consume E (limiter w) ''login_failed'' ?key = (allowed, rl1)"
    by (cases "ratelimit_consume E (limiter w) ''login_failed'' ?key")
  have first: "\<exists>evs. trace (snd (snd (AuthenticateForm_clean_code E form code w))) =
       trace w @ Consume ''login_failed'' ?key # evs"
  proof (cases allowed)
    case False
    with c show ?thesis by (simp add: clean_code_denied)
  next
    case True
    let ?w2 = "w\<lparr>limiter := rl1, trace := trace w @ [Consume ''login_failed'' ?key,
                    QueryAuthenticators (pk (af_user form))]\<rparr>"
    let ?rows = "code_authenticators (af_user form) (authenticator_rows E (store w))"
    obtain r w3 where l: "validate_loop E code ?rows ?w2 = (r, w3)"
      by (cases "validate_loop E code ?rows ?w2")
    show ?thesis
    proof (cases r)
      case None
      with l have "trace w3 = trace ?w2 @ map (\<lambda>b. ValidateCode b code False) ?rows"
        by (simp add: validate_loop_None)
      with c True l None show ?thesis by (simp add: clean_code_allowed)
    next
      case (Some a)
      with l obtain pre post where
        "trace w3 = trace ?w2 @ map (\<lambda>b. ValidateCode b code False) pre @ [ValidateCode a code True]"
        using validate_loop_Some by blast
      with c True l Some show ?thesis by (simp add: clean_code_allowed)
    qed
  qed
  have denied: "\<not> allowed \<Longrightarrow> AuthenticateForm_clean_code E form code w =
          (Inl (ValidationError (account_error_message ''too_many_login_attempts'')), form,
           w\<lparr>limiter := rl1, trace := trace w @ [Consume ''login_failed'' ?key]\<rparr>)"
    using c by (simp add: clean_code_denied)
  from first denied c show ?thesis by (simp add: ratelimit_key_def)
qed

theorem AuthenticateForm_consumes_first_witness:
  "\<not> fst (ratelimit_consume demo_env (limiter (demo_world 0)) ''login_failed'' (ratelimit_key (af_user demo_form)))
   \<and> fst (AuthenticateForm_clean_code demo_env demo_form ''123456'' (demo_world 0)) =
       Inl (ValidationError (account_error_message ''too_many_login_attempts''))
   \<and> trace (snd (snd (AuthenticateForm_clean_code demo_env demo_form ''123456'' (demo_world 0)))) =
       [Consume ''login_failed'' ''mfa-auth-user-7'']
   \<and> store (snd (snd (AuthenticateForm_clean_code demo_env demo_form ''123456'' (demo_world 0)))) = demo_rows"
  using AuthenticateForm_consumes_first [of demo_env demo_form "''123456''" "demo_world 0"]
  by (simp add: demo_env_def demo_world_def demo_form_def budget_consume_def ratelimit_key_def
      str_int_def str_nat.simps digit_def)


lemma clean_code_cases:
  assumes allowed:
    "ratelimit_consume E (limiter w) ''login_failed'' (ratelimit_key (af_user form)) = (True, rl1)"
  shows
    "(\<exists>pre a post.
        code_authenticators (af_user form) (authenticator_rows E (store w)) = pre @ a # post
        \<and> fst (AuthenticateForm_clean_code E form code w) = Inr code
        \<and> fst (snd (AuthenticateForm_clean_code E form code w)) = form\<lparr>af_authenticator := Some a\<rparr>
        \<and> trace (snd (snd (AuthenticateForm_clean_code E form code w))) =
            trace w @ [Consume ''login_failed'' (ratelimit_key (af_user form)),
                       QueryAuthenticators (pk (af_user form))]
              @ map (\<lambda>b. ValidateCode b code False) pre
              @ [ValidateCode a code True, Clear ''login_failed'' (ratelimit_key (af_user form))]
        \<and> limiter (snd (snd (AuthenticateForm_clean_code E form code w))) =
            ratelimit_clear E rl1 ''login_failed'' (ratelimit_key (af_user form)))
     \<or> (fst (AuthenticateForm_clean_code E form code w) =
            Inl (ValidationError (mfa_error_message ''incorrect_code''))
        \<and> fst (snd (AuthenticateForm_clean_code E form code w)) = form
        \<and> trace (snd (snd (AuthenticateForm_clean_code E form code w))) =
            trace w @ [Consume ''login_failed'' (ratelimit_key (af_user form)),
                       QueryAuthenticators (pk (af_user form))]
              @ map (\<lambda>b. ValidateCode b code False)
                  (code_authenticators (af_user form) (authenticator_rows E (store w)))
        \<and> limiter (snd (snd (AuthenticateForm_clean_code E form code w))) = rl1)"
proof -
  let ?key = "ratelimit_key (af_user form)"
  let ?rows = "code_authenticators (af_user form) (authenticator_rows E (store w))"
  let ?w2 = "w\<lparr>limiter := rl1, trace := trace w @ [Consume ''login_failed'' ?key,
                  QueryAuthenticators (pk (af_user form))]\<rparr>"
  obtain r w3 where l: "validate_loop E code ?rows ?w2 = (r, w3)"
    by (cases "validate_loop E code ?rows ?w2")
  from validate_loop_frame [OF l] have lim: "limiter w3 = rl1" by simp
  show ?thesis
  proof (cases r)
    case None
    with l have "trace w3 = trace ?w2 @ map (\<lambda>b. ValidateCode b code False) ?rows"
      by (simp add: validate_loop_None)
    with allowed l None lim show ?thesis by (simp add: clean_code_allowed)
  next
    case (Some a)
    with l obtain pre post where split: "?rows = pre @ a # post" and
      tr: "trace w3 = trace ?w2 @ map (\<lambda>b. ValidateCode b code False) pre @ [ValidateCode a code True]"
      using validate_loop_Some by blast
    have "?rows = pre @ a # post
        \<and> fst (AuthenticateForm_clean_code E form code w) = Inr code
        \<and> fst (snd (AuthenticateForm_clean_code E form code w)) = form\<lparr>af_authenticator := Some a\<rparr>
        \<and> trace (snd (snd (AuthenticateForm_clean_code E form code w))) =
            trace w @ [Consume ''login_failed'' ?key, QueryAuthenticators (pk (af_user form))]
              @ map (\<lambda>b. ValidateCode b code False) pre
              @ [ValidateCode a code True, Clear ''login_failed'' ?key]
        \<and> limiter (snd (snd (AuthenticateForm_clean_code E form code w))) =
            ratelimit_clear E rl1 ''login_failed'' ?key"
      using allowed l Some lim tr split by (simp add: clean_code_allowed)
    then show ?thesis by blast
  qed
qed

lemma clean_code_incorrect:
  assumes failed: "fst (AuthenticateForm_clean_code E form code w) =
       Inl (ValidationError (mfa_error_message ''incorrect_code''))"
  shows "fst (ratelimit_consume E (limiter w) ''login_failed'' (ratelimit_key (af_user form)))
     \<and> limiter (snd (snd (AuthenticateForm_clean_code E form code w))) =
         snd (ratelimit_consume E (limiter w) ''login_failed'' (ratelimit_key (af_user form)))
     \<and> trace (snd (snd (AuthenticateForm_clean_code E form code w))) =
            trace w @ [Consume ''login_failed'' (ratelimit_key (af_user form)),
                       QueryAuthenticators (pk (af_user form))]
              @ map (\<lambda>b. ValidateCode b code False)
                  (code_authenticators (af_user form) (authenticator_rows E (store w)))"
proof -
  let ?key = "ratelimit_key (af_user form)"
  let ?R = "AuthenticateForm_clean_code E form code w"
  obtain ok rl1 where c: "ratelimit_consume E (limiter w) ''login_failed'' ?key = (ok, rl1)"
    by (cases "ratelimit_consume E (limiter w) ''login_failed'' ?key")
  have ok: ok
  proof (rule ccontr)
    assume "\<not> ok"
    with c have "fst ?R = Inl (ValidationError (account_error_message ''too_many_login_attempts''))"
      by (simp add: clean_code_denied)
    with failed show False by simp
  qed
  from clean_code_cases [of E w form rl1 code] c ok failed show ?thesis by auto
qed

lemma validate_loop_refused:
  "validate_loop E code rows w = (None, w') \<Longrightarrow>
     (\<forall>p b s. rows = p @ b # s \<longrightarrow>
        \<not> fst (validate_code E (foldl (\<lambda>st x. snd (validate_code E st x code)) (store w) p) b code))
     \<and> store w' = foldl (\<lambda>st x. snd (validate_code E st x code)) (store w) rows"
proof (induction rows arbitrary: w)
  case Nil
  then show ?case by simp
next
  case (Cons r rows)
  obtain ok st' where v: "validate_code E (store w) r code = (ok, st')"
    by (cases "validate_code E (store w) r code")
  let ?w1 = "log (ValidateCode r code ok) (w\<lparr>store := st'\<rparr>)"
  from Cons.prems v have no: "\<not> ok" and rest: "validate_loop E code rows ?w1 = (None, w')"
    by (auto simp: Let_def split: if_splits)
  have st1: "store ?w1 = st'" by (simp add: log_def)
  from Cons.IH [OF rest] st1
  have ih: "\<And>p b s. rows = p @ b # s \<Longrightarrow>
        \<not> fst (validate_code E (foldl (\<lambda>st x. snd (validate_code E st x code)) st' p) b code)"
    and fin: "store w' = foldl (\<lambda>st x. snd (validate_code E st x code)) st' rows"
    by simp_all
  have "\<not> fst (validate_code E (foldl (\<lambda>st x. snd (validate_code E st x code)) (store w) p) b code)"
    if split: "r # rows = p @ b # s" for p b s
  proof (cases p)
    case Nil
    with split have "b = r" by simp
    with Nil v no show ?thesis by simp
  next
    case (Cons r' p')
    with split have "r' = r" "rows = p' @ b # s" by simp_all
    with ih [of p' b s] Cons v show ?thesis by simp
  qed
  with fin v show ?case by simp
qed

lemma validate_loop_accepted:
  "validate_loop E code rows w = (Some a, w') \<Longrightarrow>
     \<exists>pre post. rows = pre @ a # post
       \<and> (\<forall>p b s. pre = p @ b # s \<longrightarrow>
            \<not> fst (validate_code E (foldl (\<lambda>st x. snd (validate_code E st x code)) (store w) p) b code))
       \<and> fst (validate_code E (foldl (\<lambda>st x. snd (validate_code E st x code)) (store w) pre) a code)
       \<and> store w' = snd (validate_code E (foldl (\<lambda>st x. snd (validate_code E st x code)) (store w) pre) a code)
       \<and> trace w' = trace w @ map (\<lambda>b. ValidateCode b code False) pre @ [ValidateCode a code True]"
proof (induction rows arbitrary: w)
  case Nil
  then show ?case by simp
next
  case (Cons r rows)
  let ?step = "\<lambda>st x. snd (validate_code E st x code)"
  obtain ok st' where v: "validate_code E (store w) r code = (ok, st')"
    by (cases "validate_code E (store w) r code")
  show ?case
  proof (cases ok)
    case True
    with Cons.prems v have "a = r" "store w' = st'" "trace w' = trace w @ [ValidateCode r code True]"
      by (auto simp: log_def Let_def)
    with v True have "r # rows = [] @ a # rows
       \<and> (\<forall>p b s. [] = p @ b # s \<longrightarrow>
            \<not> fst (validate_code E (foldl ?step (store w) p) b code))
       \<and> fst (validate_code E (foldl ?step (store w) []) a code)
       \<and> store w' = snd (validate_code E (foldl ?step (store w) []) a code)
       \<and> trace w' = trace w @ map (\<lambda>b. ValidateCode b code False) [] @ [ValidateCode a code True]"
      by simp
    then show ?thesis by blast
  next
    case False
    let ?w1 = "log (ValidateCode r code False) (w\<lparr>store := st'\<rparr>)"
    from Cons.prems v False have rest: "validate_loop E code rows ?w1 = (Some a, w')"
      by (simp add: Let_def)
    have st1: "store ?w1 = st'" "trace ?w1 = trace w @ [ValidateCode r code False]"
      by (simp_all add: log_def)
    from Cons.IH [OF rest] st1 obtain pre post where
      rows: "rows = pre @ a # post"
      and ih: "\<And>p b s. pre = p @ b # s \<Longrightarrow>
            \<not> fst (validate_code E (foldl ?step st' p) b code)"
      and acc: "fst (validate_code E (foldl ?step st' pre) a code)"
      and fin: "store w' = snd (validate_code E (foldl ?step st' pre) a code)"
      and tr: "trace w' = (trace w @ [ValidateCode r code False])
                 @ map (\<lambda>b. ValidateCode b code False) pre @ [ValidateCode a code True]"
      by auto
    have before: "\<not> fst (validate_code E (foldl ?step (store w) p) b code)"
      if split: "r # pre = p @ b # s" for p b s
    proof (cases p)
      case Nil
      with split have "b = r" by simp
      with Nil v False show ?thesis by simp
    next
      case (Cons r' p')
      with split have "r' = r" "pre = p' @ b # s" by simp_all
      with ih [of p' b s] Cons v show ?thesis by simp
    qed
    from rows before acc fin tr v
    have "r # rows = (r # pre) @ a # post
       \<and> (\<forall>p b s. r # pre = p @ b # s \<longrightarrow>
            \<not> fst (validate_code E (foldl ?step (store w) p) b code))
       \<and> fst (validate_code E (foldl ?step (store w) (r # pre)) a code)
       \<and> store w' = snd (validate_code E (foldl ?step (store w) (r # pre)) a code)
       \<and> trace w' = trace w @ map (\<lambda>b. ValidateCode b code False) (r # pre) @ [ValidateCode a code True]"
      by simp
    then show ?thesis by blast
  qed
qed


text \<open>
  Claim C2. When \<^verbatim>\<open>consume\<close> answers true, \<^verbatim>\<open>clean_code\<close> walks the rows of the store
  that belong to the user and are not of the WebAuthn type, in the order of the query,
  and asks \<^verbatim>\<open>validate_code\<close> of each, every call in the store its predecessors left.
  Either one of them, \<open>a\<close>, accepts the code after every one before it has refused it: the
  method returns the code, the form holds \<open>a\<close>, and the last call clears the limiter for
  the user's key. Or every one of them refuses the code: the method raises
  \<^verbatim>\<open>incorrect_code\<close>, and the limiter stays as the consumption left it.
\<close>

theorem AuthenticateForm_first_match_wins:
  assumes allowed:
    "ratelimit_consume E (limiter w) ''login_failed'' (ratelimit_key (af_user form)) = (True, rl1)"
  shows
    "(\<exists>pre a post.
        filter (\<lambda>x. auth_user x = pk (af_user form) \<and> auth_type x \<noteq> WEBAUTHN)
            (authenticator_rows E (store w)) = pre @ a # post
        \<and> (\<forall>p b s. pre = p @ b # s \<longrightarrow>
              \<not> fst (validate_code E
                       (foldl (\<lambda>st x. snd (validate_code E st x code)) (store w) p) b code))
        \<and> fst (validate_code E
                 (foldl (\<lambda>st x. snd (validate_code E st x code)) (store w) pre) a code)
        \<and> fst (AuthenticateForm_clean_code E form code w) = Inr code
        \<and> fst (snd (AuthenticateForm_clean_code E form code w)) = form\<lparr>af_authenticator := Some a\<rparr>
        \<and> store (snd (snd (AuthenticateForm_clean_code E form code w))) =
            snd (validate_code E
                   (foldl (\<lambda>st x. snd (validate_code E st x code)) (store w) pre) a code)
        \<and> trace (snd (snd (AuthenticateForm_clean_code E form code w))) =
            trace w @ [Consume ''login_failed'' (ratelimit_key (af_user form)),
                       QueryAuthenticators (pk (af_user form))]
              @ map (\<lambda>b. ValidateCode b code False) pre
              @ [ValidateCode a code True, Clear ''login_failed'' (ratelimit_key (af_user form))]
        \<and> limiter (snd (snd (AuthenticateForm_clean_code E form code w))) =
            ratelimit_clear E rl1 ''login_failed'' (ratelimit_key (af_user form)))
     \<or> ((\<forall>p b s.
            filter (\<lambda>x. auth_user x = pk (af_user form) \<and> auth_type x \<noteq> WEBAUTHN)
                (authenticator_rows E (store w)) = p @ b # s \<longrightarrow>
              \<not> fst (validate_code E
                       (foldl (\<lambda>st x. snd (validate_code E st x code)) (store w) p) b code))
        \<and> fst (AuthenticateForm_clean_code E form code w) =
            Inl (ValidationError (mfa_error_message ''incorrect_code''))
        \<and> fst (snd (AuthenticateForm_clean_code E form code w)) = form
        \<and> store (snd (snd (AuthenticateForm_clean_code E form code w))) =
            foldl (\<lambda>st x. snd (validate_code E st x code)) (store w)
              (filter (\<lambda>x. auth_user x = pk (af_user form) \<and> auth_type x \<noteq> WEBAUTHN)
                 (authenticator_rows E (store w)))
        \<and> trace (snd (snd (AuthenticateForm_clean_code E form code w))) =
            trace w @ [Consume ''login_failed'' (ratelimit_key (af_user form)),
                       QueryAuthenticators (pk (af_user form))]
              @ map (\<lambda>b. ValidateCode b code False)
                  (filter (\<lambda>x. auth_user x = pk (af_user form) \<and> auth_type x \<noteq> WEBAUTHN)
                     (authenticator_rows E (store w)))
        \<and> limiter (snd (snd (AuthenticateForm_clean_code E form code w))) = rl1)"
proof -
  let ?key = "ratelimit_key (af_user form)"
  let ?step = "\<lambda>st x. snd (validate_code E st x code)"
  let ?rows = "filter (\<lambda>x. auth_user x = pk (af_user form) \<and> auth_type x \<noteq> WEBAUTHN)
                 (authenticator_rows E (store w))"
  let ?w2 = "w\<lparr>limiter := rl1, trace := trace w @ [Consume ''login_failed'' ?key,
                  QueryAuthenticators (pk (af_user form))]\<rparr>"
  let ?R = "AuthenticateForm_clean_code E form code w"
  have rows: "code_authenticators (af_user form) (authenticator_rows E (store w)) = ?rows"
    by (simp add: code_authenticators_def)
  have w2: "store ?w2 = store w"
    "trace ?w2 = trace w @ [Consume ''login_failed'' ?key, QueryAuthenticators (pk (af_user form))]"
    by simp_all
  obtain r w3 where l: "validate_loop E code ?rows ?w2 = (r, w3)"
    by (cases "validate_loop E code ?rows ?w2")
  from validate_loop_frame [OF l] have lim: "limiter w3 = rl1" by simp
  show ?thesis
  proof (cases r)
    case None
    from l None have loop: "validate_loop E code ?rows ?w2 = (None, w3)" by simp
    from validate_loop_refused [OF loop] w2
    have refused: "\<forall>p b s. ?rows = p @ b # s \<longrightarrow>
          \<not> fst (validate_code E (foldl ?step (store w) p) b code)"
      and st: "store w3 = foldl ?step (store w) ?rows"
      by simp_all
    from validate_loop_None [OF loop] w2
    have tr: "trace w3 = trace w @ [Consume ''login_failed'' ?key,
                 QueryAuthenticators (pk (af_user form))]
               @ map (\<lambda>b. ValidateCode b code False) ?rows"
      by simp
    have res: "?R = (Inl (ValidationError (mfa_error_message ''incorrect_code'')), form, w3)"
      using clean_code_allowed [OF allowed, of code] rows loop by simp
    have "fst ?R = Inl (ValidationError (mfa_error_message ''incorrect_code''))
        \<and> fst (snd ?R) = form \<and> store (snd (snd ?R)) = foldl ?step (store w) ?rows
        \<and> trace (snd (snd ?R)) = trace w @ [Consume ''login_failed'' ?key,
                 QueryAuthenticators (pk (af_user form))]
               @ map (\<lambda>b. ValidateCode b code False) ?rows
        \<and> limiter (snd (snd ?R)) = rl1"
      using res st tr lim by simp
    with refused show ?thesis by blast
  next
    case (Some a)
    from l Some have loop: "validate_loop E code ?rows ?w2 = (Some a, w3)" by simp
    from validate_loop_accepted [OF loop] w2 obtain pre post where
      split: "?rows = pre @ a # post"
      and refused: "\<forall>p b s. pre = p @ b # s \<longrightarrow>
            \<not> fst (validate_code E (foldl ?step (store w) p) b code)"
      and acc: "fst (validate_code E (foldl ?step (store w) pre) a code)"
      and st: "store w3 = snd (validate_code E (foldl ?step (store w) pre) a code)"
      and tr: "trace w3 = trace w @ [Consume ''login_failed'' ?key,
                 QueryAuthenticators (pk (af_user form))]
               @ map (\<lambda>b. ValidateCode b code False) pre @ [ValidateCode a code True]"
      by auto
    have res: "?R = (Inr code, form\<lparr>af_authenticator := Some a\<rparr>,
           w3\<lparr>limiter := ratelimit_clear E (limiter w3) ''login_failed'' ?key,
              trace := trace w3 @ [Clear ''login_failed'' ?key]\<rparr>)"
      using clean_code_allowed [OF allowed, of code] rows loop by simp
    have "fst ?R = Inr code \<and> fst (snd ?R) = form\<lparr>af_authenticator := Some a\<rparr>
        \<and> store (snd (snd ?R)) = snd (validate_code E (foldl ?step (store w) pre) a code)
        \<and> trace (snd (snd ?R)) = trace w @ [Consume ''login_failed'' ?key,
                 QueryAuthenticators (pk (af_user form))]
               @ map (\<lambda>b. ValidateCode b code False) pre
               @ [ValidateCode a code True, Clear ''login_failed'' ?key]
        \<and> limiter (snd (snd ?R)) = ratelimit_clear E rl1 ''login_failed'' ?key"
      using res st tr lim by simp
    with split refused acc show ?thesis by blast
  qed
qed

theorem AuthenticateForm_first_match_wins_witness:
  "ratelimit_consume demo_env (limiter (demo_world 2)) ''login_failed'' (ratelimit_key (af_user demo_form))
     = (True, (\<lambda>_. 2)((''login_failed'', ''mfa-auth-user-7'') := 1))
   \<and> filter (\<lambda>x. auth_user x = pk (af_user demo_form) \<and> auth_type x \<noteq> WEBAUTHN)
        (authenticator_rows demo_env (store (demo_world 2))) =
       [\<lparr>auth_pk = 3, auth_user = 7, auth_type = TOTP, auth_data = ''654321''\<rparr>,
        \<lparr>auth_pk = 4, auth_user = 7, auth_type = OTHER ''recovery_codes'', auth_data = ''123456''\<rparr>,
        \<lparr>auth_pk = 5, auth_user = 7, auth_type = TOTP, auth_data = ''123456''\<rparr>]
   \<and> fst (AuthenticateForm_clean_code demo_env demo_form ''123456'' (demo_world 2)) = Inr ''123456''
   \<and> af_authenticator (fst (snd (AuthenticateForm_clean_code demo_env demo_form ''123456'' (demo_world 2)))) =
       Some \<lparr>auth_pk = 4, auth_user = 7, auth_type = OTHER ''recovery_codes'', auth_data = ''123456''\<rparr>
   \<and> limiter (snd (snd (AuthenticateForm_clean_code demo_env demo_form ''123456'' (demo_world 2))))
       (''login_failed'', ''mfa-auth-user-7'') = 3
   \<and> fst (AuthenticateForm_clean_code demo_env demo_form ''000000'' (demo_world 2)) =
       Inl (ValidationError (mfa_error_message ''incorrect_code''))"
proof -
  let ?rl1 = "(\<lambda>_. 2)((''login_failed'', ''mfa-auth-user-7'') := 1) :: budget"
  have h: "ratelimit_consume demo_env (limiter (demo_world 2)) ''login_failed''
      (ratelimit_key (af_user demo_form)) = (True, ?rl1)"
    by (simp add: demo_env_def demo_world_def demo_form_def budget_consume_def
        ratelimit_key_def str_int_def str_nat.simps digit_def)
  have rows: "filter (\<lambda>x. auth_user x = pk (af_user demo_form) \<and> auth_type x \<noteq> WEBAUTHN)
        (authenticator_rows demo_env (store (demo_world 2))) =
       [\<lparr>auth_pk = 3, auth_user = 7, auth_type = TOTP, auth_data = ''654321''\<rparr>,
        \<lparr>auth_pk = 4, auth_user = 7, auth_type = OTHER ''recovery_codes'', auth_data = ''123456''\<rparr>,
        \<lparr>auth_pk = 5, auth_user = 7, auth_type = TOTP, auth_data = ''123456''\<rparr>]"
    by (simp add: demo_env_def demo_world_def demo_form_def demo_rows_def)
  have accepted:
    "fst (AuthenticateForm_clean_code demo_env demo_form ''123456'' (demo_world 2)) = Inr ''123456''
     \<and> af_authenticator (fst (snd (AuthenticateForm_clean_code demo_env demo_form ''123456'' (demo_world 2)))) =
       Some \<lparr>auth_pk = 4, auth_user = 7, auth_type = OTHER ''recovery_codes'', auth_data = ''123456''\<rparr>
     \<and> limiter (snd (snd (AuthenticateForm_clean_code demo_env demo_form ''123456'' (demo_world 2))))
       (''login_failed'', ''mfa-auth-user-7'') = 3"
    by (simp add: AuthenticateForm_clean_code_def code_authenticators_def log_def
      demo_env_def demo_world_def demo_form_def demo_rows_def budget_consume_def budget_clear_def
      ratelimit_key_def str_int_def str_nat.simps digit_def Let_def)
  have "fst (AuthenticateForm_clean_code demo_env demo_form ''000000'' (demo_world 2)) = Inr ''000000''
     \<or> fst (AuthenticateForm_clean_code demo_env demo_form ''000000'' (demo_world 2)) =
       Inl (ValidationError (mfa_error_message ''incorrect_code''))"
    using AuthenticateForm_first_match_wins [OF h, of "''000000''"] by blast
  moreover
  have "fst (AuthenticateForm_clean_code demo_env demo_form ''000000'' (demo_world 2)) \<noteq> Inr ''000000''"
    by (simp add: AuthenticateForm_clean_code_def code_authenticators_def log_def
      demo_env_def demo_world_def demo_form_def demo_rows_def budget_consume_def
      ratelimit_key_def Let_def)
  ultimately
  have refused: "fst (AuthenticateForm_clean_code demo_env demo_form ''000000'' (demo_world 2)) =
       Inl (ValidationError (mfa_error_message ''incorrect_code''))"
    by blast
  from h rows accepted refused show ?thesis by simp
qed

lemma clear_only_on_success:
  "\<exists>evs. trace (snd (snd (AuthenticateForm_clean_code E form code w))) = trace w @ evs
      \<and> (list_ex is_clear evs \<longrightarrow> fst (AuthenticateForm_clean_code E form code w) = Inr code)"
proof -
  let ?key = "ratelimit_key (af_user form)"
  let ?w' = "snd (snd (AuthenticateForm_clean_code E form code w))"
  obtain ok rl1 where c: "ratelimit_consume E (limiter w) ''login_failed'' ?key = (ok, rl1)"
    by (cases "ratelimit_consume E (limiter w) ''login_failed'' ?key")
  show ?thesis
  proof (cases ok)
    case False
    with c have "trace ?w' = trace w @ [Consume ''login_failed'' ?key]
        \<and> \<not> list_ex is_clear [Consume ''login_failed'' ?key]"
      by (simp add: clean_code_denied)
    then show ?thesis by blast
  next
    case True
    with c have ok: "ratelimit_consume E (limiter w) ''login_failed'' ?key = (True, rl1)"
      by simp
    from clean_code_cases [OF ok, of code] show ?thesis
    proof (elim disjE exE conjE)
      fix pre a post
      assume "fst (AuthenticateForm_clean_code E form code w) = Inr code"
        and "trace ?w' = trace w @ [Consume ''login_failed'' ?key, QueryAuthenticators (pk (af_user form))]
              @ map (\<lambda>b. ValidateCode b code False) pre
              @ [ValidateCode a code True, Clear ''login_failed'' ?key]"
      then show ?thesis by blast
    next
      let ?evs = "[Consume ''login_failed'' ?key, QueryAuthenticators (pk (af_user form))]
              @ map (\<lambda>b. ValidateCode b code False)
                  (code_authenticators (af_user form) (authenticator_rows E (store w)))"
      assume "trace ?w' = trace w @ ?evs"
      moreover have "\<not> list_ex is_clear ?evs"
        by (simp add: list_ex_iff image_iff)
      ultimately show ?thesis by blast
    qed
  qed
qed

text \<open>
  Claim C8. In every run of \<^verbatim>\<open>AuthenticateForm.clean_code\<close>, a call of
  \<^verbatim>\<open>ratelimit.clear\<close> is made only when the run returns the code. With the limiter of
  the spec, a run that raises \<^verbatim>\<open>incorrect_code\<close> leaves the remaining budget of the
  user's key one below what it was: the limiter is in the state the consumption left.
\<close>

theorem AuthenticateForm_no_refund:
  fixes E :: "(budget, 'st) env"
  assumes spec_limiter: "ratelimit_consume E = budget_consume"
  shows
    "(\<exists>evs. trace (snd (snd (AuthenticateForm_clean_code E form code w))) = trace w @ evs
        \<and> (list_ex is_clear evs \<longrightarrow> fst (AuthenticateForm_clean_code E form code w) = Inr code))
     \<and> (fst (AuthenticateForm_clean_code E form code w) =
            Inl (ValidationError (mfa_error_message ''incorrect_code'')) \<longrightarrow>
          Suc (limiter (snd (snd (AuthenticateForm_clean_code E form code w)))
                 (''login_failed'', ratelimit_key (af_user form))) =
            limiter w (''login_failed'', ratelimit_key (af_user form))
          \<and> limiter (snd (snd (AuthenticateForm_clean_code E form code w))) =
              snd (budget_consume (limiter w) ''login_failed'' (ratelimit_key (af_user form))))"
proof -
  let ?key = "ratelimit_key (af_user form)"
  let ?w' = "snd (snd (AuthenticateForm_clean_code E form code w))"
  have budget: "Suc (limiter ?w' (''login_failed'', ?key)) = limiter w (''login_failed'', ?key)
      \<and> limiter ?w' = snd (budget_consume (limiter w) ''login_failed'' ?key)"
    if failed: "fst (AuthenticateForm_clean_code E form code w) =
            Inl (ValidationError (mfa_error_message ''incorrect_code''))"
  proof -
    from clean_code_incorrect [OF failed] spec_limiter
    have ok: "fst (budget_consume (limiter w) ''login_failed'' ?key)"
      and lim: "limiter ?w' = snd (budget_consume (limiter w) ''login_failed'' ?key)"
      by simp_all
    from ok have "0 < limiter w (''login_failed'', ?key)"
      by (simp add: budget_consume_def split: if_splits)
    with lim have "Suc (limiter ?w' (''login_failed'', ?key)) = limiter w (''login_failed'', ?key)"
      by (simp add: budget_consume_def)
    with lim show ?thesis by simp
  qed
  from clear_only_on_success [of E form code w] budget show ?thesis by blast
qed

theorem AuthenticateForm_no_refund_witness:
  "ratelimit_consume demo_env = budget_consume
   \<and> fst (AuthenticateForm_clean_code demo_env demo_form ''000000'' (demo_world 3)) =
       Inl (ValidationError (mfa_error_message ''incorrect_code''))
   \<and> limiter (demo_world 3) (''login_failed'', ratelimit_key (af_user demo_form)) = 3
   \<and> limiter (snd (snd (AuthenticateForm_clean_code demo_env demo_form ''000000'' (demo_world 3))))
       (''login_failed'', ratelimit_key (af_user demo_form)) = 2"
proof -
  have h1: "ratelimit_consume demo_env = budget_consume"
    by (simp add: demo_env_def)
  have h2: "fst (AuthenticateForm_clean_code demo_env demo_form ''000000'' (demo_world 3)) =
       Inl (ValidationError (mfa_error_message ''incorrect_code''))"
    by (simp add: AuthenticateForm_clean_code_def code_authenticators_def log_def
      demo_env_def demo_world_def demo_form_def demo_rows_def budget_consume_def
      ratelimit_key_def Let_def)
  have h3: "limiter (demo_world 3) (''login_failed'', ratelimit_key (af_user demo_form)) = 3"
    by (simp add: demo_world_def)
  from AuthenticateForm_no_refund [OF h1, of demo_form "''000000''" "demo_world 3", THEN conjunct2] h2
  have "Suc (limiter (snd (snd (AuthenticateForm_clean_code demo_env demo_form ''000000'' (demo_world 3))))
       (''login_failed'', ratelimit_key (af_user demo_form))) =
       limiter (demo_world 3) (''login_failed'', ratelimit_key (af_user demo_form))"
    by blast
  with h3 have "limiter (snd (snd (AuthenticateForm_clean_code demo_env demo_form ''000000'' (demo_world 3))))
       (''login_failed'', ratelimit_key (af_user demo_form)) = 2"
    by simp
  with h1 h2 h3 show ?thesis by simp
qed

section \<open>The TOTP activation form\<close>

lemma get_totp_secret_regenerate:
  "get_totp_secret E True w =
     (generate_totp_secret E (secrets_drawn w),
      w\<lparr>session_secret := Some (generate_totp_secret E (secrets_drawn w)),
        secrets_drawn := Suc (secrets_drawn w),
        trace := trace w @ [GetTotpSecret True]\<rparr>)"
  by (simp add: get_totp_secret_def log_def Let_def)

lemma init_email_verified:
  "ActivateTOTPForm_init E u bound w = (f, w1) \<Longrightarrow>
     email_verified f = (\<not> list_ex (\<lambda>e. email_user e = pk u \<and> \<not> verified e) (email_addresses w))"
  by (auto simp: ActivateTOTPForm_init_def Let_def split: prod.splits)

lemma activate_unverified:
  "\<not> email_verified f \<Longrightarrow>
     ActivateTOTPForm_clean_code E f code w =
       (Inl (ValidationError (mfa_error_message ''unverified_email'')),
        f\<lparr>secret := generate_totp_secret E (secrets_drawn w)\<rparr>,
        w\<lparr>session_secret := Some (generate_totp_secret E (secrets_drawn w)),
          secrets_drawn := Suc (secrets_drawn w),
          trace := trace w @ [GetTotpSecret True]\<rparr>)"
  by (simp add: ActivateTOTPForm_clean_code_def ActivateTOTPForm_clean_code_try_def
      get_totp_secret_regenerate)

lemma activate_rejected:
  "email_verified f \<Longrightarrow> \<not> validate_totp_code E (secret f) code \<Longrightarrow>
     ActivateTOTPForm_clean_code E f code w =
       (Inl (ValidationError (mfa_error_message ''incorrect_code'')),
        f\<lparr>secret := generate_totp_secret E (secrets_drawn w)\<rparr>,
        w\<lparr>session_secret := Some (generate_totp_secret E (secrets_drawn w)),
          secrets_drawn := Suc (secrets_drawn w),
          trace := trace w @ [ValidateTotpCode (secret f) code False, GetTotpSecret True]\<rparr>)"
  by (simp add: ActivateTOTPForm_clean_code_def ActivateTOTPForm_clean_code_try_def
      get_totp_secret_regenerate log_def Let_def)

lemma activate_accepted:
  "email_verified f \<Longrightarrow> validate_totp_code E (secret f) code \<Longrightarrow>
     ActivateTOTPForm_clean_code E f code w =
       (Inr code, f, w\<lparr>trace := trace w @ [ValidateTotpCode (secret f) code True]\<rparr>)"
  by (simp add: ActivateTOTPForm_clean_code_def ActivateTOTPForm_clean_code_try_def
      log_def Let_def)

lemma authenticate_frame:
  "session_secret (snd (snd (AuthenticateForm_clean_code E form code w))) = session_secret w
   \<and> secrets_drawn (snd (snd (AuthenticateForm_clean_code E form code w))) = secrets_drawn w"
proof -
  let ?key = "ratelimit_key (af_user form)"
  obtain ok rl1 where c: "ratelimit_consume E (limiter w) ''login_failed'' ?key = (ok, rl1)"
    by (cases "ratelimit_consume E (limiter w) ''login_failed'' ?key")
  show ?thesis
  proof (cases ok)
    case False
    with c show ?thesis by (simp add: clean_code_denied)
  next
    case True
    let ?w2 = "w\<lparr>limiter := rl1, trace := trace w @ [Consume ''login_failed'' ?key,
                    QueryAuthenticators (pk (af_user form))]\<rparr>"
    let ?rows = "code_authenticators (af_user form) (authenticator_rows E (store w))"
    obtain r w3 where l: "validate_loop E code ?rows ?w2 = (r, w3)"
      by (cases "validate_loop E code ?rows ?w2")
    from validate_loop_frame [OF l] c True l show ?thesis
      by (cases r) (simp_all add: clean_code_allowed)
  qed
qed

lemma authenticate_trace:
  "\<exists>evs. trace (snd (snd (AuthenticateForm_clean_code E form code w))) = trace w @ evs
      \<and> \<not> list_ex is_get_totp_secret evs"
proof -
  let ?key = "ratelimit_key (af_user form)"
  let ?w' = "snd (snd (AuthenticateForm_clean_code E form code w))"
  obtain ok rl1 where c: "ratelimit_consume E (limiter w) ''login_failed'' ?key = (ok, rl1)"
    by (cases "ratelimit_consume E (limiter w) ''login_failed'' ?key")
  show ?thesis
  proof (cases ok)
    case False
    with c have "trace ?w' = trace w @ [Consume ''login_failed'' ?key]
        \<and> \<not> list_ex is_get_totp_secret [Consume ''login_failed'' ?key]"
      by (simp add: clean_code_denied)
    then show ?thesis by blast
  next
    case True
    with c have ok: "ratelimit_consume E (limiter w) ''login_failed'' ?key = (True, rl1)"
      by simp
    from clean_code_cases [OF ok, of code] show ?thesis
    proof (elim disjE exE conjE)
      fix pre a post
      let ?evs = "[Consume ''login_failed'' ?key, QueryAuthenticators (pk (af_user form))]
              @ map (\<lambda>b. ValidateCode b code False) pre
              @ [ValidateCode a code True, Clear ''login_failed'' ?key]"
      assume "trace ?w' = trace w @ ?evs"
      moreover have "\<not> list_ex is_get_totp_secret ?evs"
        by (simp add: list_ex_iff image_iff)
      ultimately show ?thesis by blast
    next
      let ?evs = "[Consume ''login_failed'' ?key, QueryAuthenticators (pk (af_user form))]
              @ map (\<lambda>b. ValidateCode b code False)
                  (code_authenticators (af_user form) (authenticator_rows E (store w)))"
      assume "trace ?w' = trace w @ ?evs"
      moreover have "\<not> list_ex is_get_totp_secret ?evs"
        by (simp add: list_ex_iff image_iff)
      ultimately show ?thesis by blast
    qed
  qed
qed

lemma full_clean_refused_field:
  "CharField_clean True (d ''code'') = Inl (ValidationError m) \<Longrightarrow>
     ActivateTOTPForm_full_clean E f d w =
       \<lparr>uncaught = None, form_errors = [(Some ''code'', m)], cleaned_code = None,
        form_after = f, world_after = w\<rparr>"
  by (simp add: ActivateTOTPForm_full_clean_def)

lemma full_clean_unverified:
  "CharField_clean True (d ''code'') = Inr v \<Longrightarrow> \<not> email_verified f \<Longrightarrow>
     ActivateTOTPForm_full_clean E f d w =
       \<lparr>uncaught = None,
        form_errors = [(Some ''code'', mfa_error_message ''unverified_email'')],
        cleaned_code = None,
        form_after = f\<lparr>secret := generate_totp_secret E (secrets_drawn w)\<rparr>,
        world_after = w\<lparr>session_secret := Some (generate_totp_secret E (secrets_drawn w)),
          secrets_drawn := Suc (secrets_drawn w),
          trace := trace w @ [GetTotpSecret True]\<rparr>\<rparr>"
  by (simp add: ActivateTOTPForm_full_clean_def activate_unverified)

lemma full_clean_rejected:
  "CharField_clean True (d ''code'') = Inr v \<Longrightarrow> email_verified f \<Longrightarrow>
   \<not> validate_totp_code E (secret f) v \<Longrightarrow>
     ActivateTOTPForm_full_clean E f d w =
       \<lparr>uncaught = None,
        form_errors = [(Some ''code'', mfa_error_message ''incorrect_code'')],
        cleaned_code = None,
        form_after = f\<lparr>secret := generate_totp_secret E (secrets_drawn w)\<rparr>,
        world_after = w\<lparr>session_secret := Some (generate_totp_secret E (secrets_drawn w)),
          secrets_drawn := Suc (secrets_drawn w),
          trace := trace w @ [ValidateTotpCode (secret f) v False, GetTotpSecret True]\<rparr>\<rparr>"
  by (simp add: ActivateTOTPForm_full_clean_def activate_rejected)

lemma full_clean_accepted:
  "CharField_clean True (d ''code'') = Inr v \<Longrightarrow> email_verified f \<Longrightarrow>
   validate_totp_code E (secret f) v \<Longrightarrow>
     ActivateTOTPForm_full_clean E f d w =
       \<lparr>uncaught = None, form_errors = [], cleaned_code = Some v, form_after = f,
        world_after = w\<lparr>trace := trace w @ [ValidateTotpCode (secret f) v True]\<rparr>\<rparr>"
  by (simp add: ActivateTOTPForm_full_clean_def activate_accepted)

lemma demo_init:
  "ActivateTOTPForm_init demo_env \<lparr>pk = 8\<rparr> True (demo_world 3) =
     (\<lparr>atf_user = \<lparr>pk = 8\<rparr>, email_verified = False, is_bound = True, secret = ''PENDING''\<rparr>,
      (demo_world 3)\<lparr>trace := [QueryEmailAddresses 8, GetTotpSecret False]\<rparr>)"
  "ActivateTOTPForm_init demo_env \<lparr>pk = 7\<rparr> True (demo_world 3) =
     (\<lparr>atf_user = \<lparr>pk = 7\<rparr>, email_verified = True, is_bound = True, secret = ''PENDING''\<rparr>,
      (demo_world 3)\<lparr>trace := [QueryEmailAddresses 7, GetTotpSecret False]\<rparr>)"
  by (simp_all add: ActivateTOTPForm_init_def get_totp_secret_def log_def demo_world_def
        demo_emails_def Let_def)

lemma blank_code: "CharField_clean True ([''code'' \<mapsto> ''''] ''code'') =
    Inl (ValidationError (Gettext ''This field is required.''))"
  by (simp add: CharField_clean_def strip_def)

text \<open>
  Claim C6, as stated, is about the form as a whole. The field \<^verbatim>\<open>code\<close> is required: a
  blank code is refused by the field before \<^verbatim>\<open>clean_code\<close> runs. The user 8 below has an
  unverified address and is refused with \<^verbatim>\<open>This field is required.\<close>, not with
  \<^verbatim>\<open>unverified_email\<close>; the user 7 has none, and no code validation takes place.
\<close>

theorem blank_code_is_not_unverified_email:
  "list_ex (\<lambda>e. email_user e = pk \<lparr>pk = 8\<rparr> \<and> \<not> verified e) (email_addresses (demo_world 3))
   \<and> form_errors (ActivateTOTPForm_full_clean demo_env
         (fst (ActivateTOTPForm_init demo_env \<lparr>pk = 8\<rparr> True (demo_world 3)))
         [''code'' \<mapsto> '''']
         (snd (ActivateTOTPForm_init demo_env \<lparr>pk = 8\<rparr> True (demo_world 3)))) =
       [(Some ''code'', Gettext ''This field is required.'')]
   \<and> \<not> list_ex (\<lambda>e. email_user e = pk \<lparr>pk = 7\<rparr> \<and> \<not> verified e) (email_addresses (demo_world 3))
   \<and> form_errors (ActivateTOTPForm_full_clean demo_env
         (fst (ActivateTOTPForm_init demo_env \<lparr>pk = 7\<rparr> True (demo_world 3)))
         [''code'' \<mapsto> '''']
         (snd (ActivateTOTPForm_init demo_env \<lparr>pk = 7\<rparr> True (demo_world 3)))) =
       [(Some ''code'', Gettext ''This field is required.'')]
   \<and> trace (world_after (ActivateTOTPForm_full_clean demo_env
         (fst (ActivateTOTPForm_init demo_env \<lparr>pk = 7\<rparr> True (demo_world 3)))
         [''code'' \<mapsto> '''']
         (snd (ActivateTOTPForm_init demo_env \<lparr>pk = 7\<rparr> True (demo_world 3))))) =
       [QueryEmailAddresses 7, GetTotpSecret False]"
  by (simp add: demo_init full_clean_refused_field [where d = "[''code'' \<mapsto> '''']", OF blank_code])
     (simp add: demo_world_def demo_emails_def)

text \<open>
  Claim C7, as stated, is about every failed validation of the form. A blank code fails
  the field's \<^verbatim>\<open>required\<close> check before \<^verbatim>\<open>clean_code\<close> runs: the form has an error, no
  secret is generated, and the form's secret and the session's stay the pending one.
\<close>

theorem blank_code_keeps_secret:
  "form_errors (ActivateTOTPForm_full_clean demo_env
         (fst (ActivateTOTPForm_init demo_env \<lparr>pk = 7\<rparr> True (demo_world 3)))
         [''code'' \<mapsto> '''']
         (snd (ActivateTOTPForm_init demo_env \<lparr>pk = 7\<rparr> True (demo_world 3)))) =
       [(Some ''code'', Gettext ''This field is required.'')]
   \<and> session_secret (demo_world 3) = Some ''PENDING''
   \<and> secret (form_after (ActivateTOTPForm_full_clean demo_env
         (fst (ActivateTOTPForm_init demo_env \<lparr>pk = 7\<rparr> True (demo_world 3)))
         [''code'' \<mapsto> '''']
         (snd (ActivateTOTPForm_init demo_env \<lparr>pk = 7\<rparr> True (demo_world 3))))) = ''PENDING''
   \<and> session_secret (world_after (ActivateTOTPForm_full_clean demo_env
         (fst (ActivateTOTPForm_init demo_env \<lparr>pk = 7\<rparr> True (demo_world 3)))
         [''code'' \<mapsto> '''']
         (snd (ActivateTOTPForm_init demo_env \<lparr>pk = 7\<rparr> True (demo_world 3))))) = Some ''PENDING''
   \<and> secrets_drawn (world_after (ActivateTOTPForm_full_clean demo_env
         (fst (ActivateTOTPForm_init demo_env \<lparr>pk = 7\<rparr> True (demo_world 3)))
         [''code'' \<mapsto> '''']
         (snd (ActivateTOTPForm_init demo_env \<lparr>pk = 7\<rparr> True (demo_world 3))))) = 0
   \<and> trace (world_after (ActivateTOTPForm_full_clean demo_env
         (fst (ActivateTOTPForm_init demo_env \<lparr>pk = 7\<rparr> True (demo_world 3)))
         [''code'' \<mapsto> '''']
         (snd (ActivateTOTPForm_init demo_env \<lparr>pk = 7\<rparr> True (demo_world 3))))) =
       [QueryEmailAddresses 7, GetTotpSecret False]"
  by (simp add: demo_init full_clean_refused_field [where d = "[''code'' \<mapsto> '''']", OF blank_code])
     (simp add: demo_world_def)


text \<open>
  Claim C6, amended. For a form built by \<^verbatim>\<open>ActivateTOTPForm.__init__\<close> and a submitted
  code that passes the field's own checks, so that \<^verbatim>\<open>clean_code\<close> runs, the form is
  rejected with \<^verbatim>\<open>unverified_email\<close> exactly when the user has an \<^verbatim>\<open>EmailAddress\<close> row that
  is not verified; when the user has none, \<^verbatim>\<open>validate_totp_code\<close> is called on the form's
  secret and the cleaned code and decides between no error and \<^verbatim>\<open>incorrect_code\<close>. A code
  the field refuses (a blank one) gets the field's error and nothing else happens. The
  same holds of \<^verbatim>\<open>clean_code\<close> taken alone.
\<close>

theorem ActivateTOTPForm_unverified_email_iff:
  assumes init: "ActivateTOTPForm_init E u bound w = (f, w1)"
  shows
    "(\<forall>v. CharField_clean True (d ''code'') = Inr v \<longrightarrow>
        (form_errors (ActivateTOTPForm_full_clean E f d w1) =
           [(Some ''code'', mfa_error_message ''unverified_email'')])
          = list_ex (\<lambda>e. email_user e = pk u \<and> \<not> verified e) (email_addresses w)
        \<and> (\<not> list_ex (\<lambda>e. email_user e = pk u \<and> \<not> verified e) (email_addresses w) \<longrightarrow>
             form_errors (ActivateTOTPForm_full_clean E f d w1) =
               (if validate_totp_code E (secret f) v then []
                else [(Some ''code'', mfa_error_message ''incorrect_code'')])
             \<and> ValidateTotpCode (secret f) v (validate_totp_code E (secret f) v)
                 \<in> set (trace (world_after (ActivateTOTPForm_full_clean E f d w1)))))
     \<and> (\<forall>m. CharField_clean True (d ''code'') = Inl (ValidationError m) \<longrightarrow>
           form_errors (ActivateTOTPForm_full_clean E f d w1) = [(Some ''code'', m)]
           \<and> world_after (ActivateTOTPForm_full_clean E f d w1) = w1)
     \<and> (fst (ActivateTOTPForm_clean_code E f code w1) =
           Inl (ValidationError (mfa_error_message ''unverified_email'')))
         = list_ex (\<lambda>e. email_user e = pk u \<and> \<not> verified e) (email_addresses w)
     \<and> (\<not> list_ex (\<lambda>e. email_user e = pk u \<and> \<not> verified e) (email_addresses w) \<longrightarrow>
          fst (ActivateTOTPForm_clean_code E f code w1) =
            (if validate_totp_code E (secret f) code then Inr code
             else Inl (ValidationError (mfa_error_message ''incorrect_code'')))
          \<and> ValidateTotpCode (secret f) code (validate_totp_code E (secret f) code)
              \<in> set (trace (snd (snd (ActivateTOTPForm_clean_code E f code w1)))))"
proof -
  let ?unverified = "list_ex (\<lambda>e. email_user e = pk u \<and> \<not> verified e) (email_addresses w)"
  have ev: "email_verified f = (\<not> ?unverified)"
    using init by (rule init_email_verified)
  have reached: "(form_errors (ActivateTOTPForm_full_clean E f d w1) =
           [(Some ''code'', mfa_error_message ''unverified_email'')]) = ?unverified
        \<and> (\<not> ?unverified \<longrightarrow>
             form_errors (ActivateTOTPForm_full_clean E f d w1) =
               (if validate_totp_code E (secret f) v then []
                else [(Some ''code'', mfa_error_message ''incorrect_code'')])
             \<and> ValidateTotpCode (secret f) v (validate_totp_code E (secret f) v)
                 \<in> set (trace (world_after (ActivateTOTPForm_full_clean E f d w1))))"
    if v: "CharField_clean True (d ''code'') = Inr v" for v
  proof (cases "email_verified f")
    case False
    with ev v show ?thesis by (simp add: full_clean_unverified)
  next
    case True
    with ev v show ?thesis
      by (cases "validate_totp_code E (secret f) v")
         (simp_all add: full_clean_rejected full_clean_accepted)
  qed
  have blank: "form_errors (ActivateTOTPForm_full_clean E f d w1) = [(Some ''code'', m)]
           \<and> world_after (ActivateTOTPForm_full_clean E f d w1) = w1"
    if "CharField_clean True (d ''code'') = Inl (ValidationError m)" for m
    using that by (simp add: full_clean_refused_field)
  have alone: "(fst (ActivateTOTPForm_clean_code E f code w1) =
           Inl (ValidationError (mfa_error_message ''unverified_email''))) = ?unverified
     \<and> (\<not> ?unverified \<longrightarrow>
          fst (ActivateTOTPForm_clean_code E f code w1) =
            (if validate_totp_code E (secret f) code then Inr code
             else Inl (ValidationError (mfa_error_message ''incorrect_code'')))
          \<and> ValidateTotpCode (secret f) code (validate_totp_code E (secret f) code)
              \<in> set (trace (snd (snd (ActivateTOTPForm_clean_code E f code w1)))))"
  proof (cases "email_verified f")
    case False
    with ev show ?thesis by (simp add: activate_unverified)
  next
    case True
    with ev show ?thesis
      by (cases "validate_totp_code E (secret f) code")
         (simp_all add: activate_rejected activate_accepted)
  qed
  from reached blank alone show ?thesis by blast
qed

lemma present_code: "CharField_clean True ([''code'' \<mapsto> '' PENDING ''] ''code'') = Inr ''PENDING''"
  by (simp add: CharField_clean_def strip_def isspace_def)

theorem ActivateTOTPForm_unverified_email_iff_witness:
  "ActivateTOTPForm_init demo_env \<lparr>pk = 8\<rparr> True (demo_world 3) =
     (\<lparr>atf_user = \<lparr>pk = 8\<rparr>, email_verified = False, is_bound = True, secret = ''PENDING''\<rparr>,
      (demo_world 3)\<lparr>trace := [QueryEmailAddresses 8, GetTotpSecret False]\<rparr>)
   \<and> CharField_clean True ([''code'' \<mapsto> '' PENDING ''] ''code'') = Inr ''PENDING''
   \<and> list_ex (\<lambda>e. email_user e = pk \<lparr>pk = 8\<rparr> \<and> \<not> verified e) (email_addresses (demo_world 3))
   \<and> form_errors (ActivateTOTPForm_full_clean demo_env
        \<lparr>atf_user = \<lparr>pk = 8\<rparr>, email_verified = False, is_bound = True, secret = ''PENDING''\<rparr>
        [''code'' \<mapsto> '' PENDING '']
        ((demo_world 3)\<lparr>trace := [QueryEmailAddresses 8, GetTotpSecret False]\<rparr>)) =
       [(Some ''code'', mfa_error_message ''unverified_email'')]
   \<and> ActivateTOTPForm_init demo_env \<lparr>pk = 7\<rparr> True (demo_world 3) =
     (\<lparr>atf_user = \<lparr>pk = 7\<rparr>, email_verified = True, is_bound = True, secret = ''PENDING''\<rparr>,
      (demo_world 3)\<lparr>trace := [QueryEmailAddresses 7, GetTotpSecret False]\<rparr>)
   \<and> \<not> list_ex (\<lambda>e. email_user e = pk \<lparr>pk = 7\<rparr> \<and> \<not> verified e) (email_addresses (demo_world 3))
   \<and> form_errors (ActivateTOTPForm_full_clean demo_env
        \<lparr>atf_user = \<lparr>pk = 7\<rparr>, email_verified = True, is_bound = True, secret = ''PENDING''\<rparr>
        [''code'' \<mapsto> '' PENDING '']
        ((demo_world 3)\<lparr>trace := [QueryEmailAddresses 7, GetTotpSecret False]\<rparr>)) = []"
proof -
  let ?d = "[''code'' \<mapsto> '' PENDING '']"
  have e8: "list_ex (\<lambda>e. email_user e = pk \<lparr>pk = 8\<rparr> \<and> \<not> verified e) (email_addresses (demo_world 3))"
    and e7: "\<not> list_ex (\<lambda>e. email_user e = pk \<lparr>pk = 7\<rparr> \<and> \<not> verified e) (email_addresses (demo_world 3))"
    by (simp_all add: demo_world_def demo_emails_def)
  have v: "validate_totp_code demo_env ''PENDING'' ''PENDING''"
    by (simp add: demo_env_def)
  from ActivateTOTPForm_unverified_email_iff
         [OF demo_init(1), where d = ?d, THEN conjunct1, rule_format, OF present_code] e8
  have r8: "form_errors (ActivateTOTPForm_full_clean demo_env
        \<lparr>atf_user = \<lparr>pk = 8\<rparr>, email_verified = False, is_bound = True, secret = ''PENDING''\<rparr> ?d
        ((demo_world 3)\<lparr>trace := [QueryEmailAddresses 8, GetTotpSecret False]\<rparr>)) =
       [(Some ''code'', mfa_error_message ''unverified_email'')]"
    by simp
  from ActivateTOTPForm_unverified_email_iff
         [OF demo_init(2), where d = ?d, THEN conjunct1, rule_format, OF present_code] e7 v
  have r7: "form_errors (ActivateTOTPForm_full_clean demo_env
        \<lparr>atf_user = \<lparr>pk = 7\<rparr>, email_verified = True, is_bound = True, secret = ''PENDING''\<rparr> ?d
        ((demo_world 3)\<lparr>trace := [QueryEmailAddresses 7, GetTotpSecret False]\<rparr>)) = []"
    by simp
  from demo_init present_code e8 e7 r8 r7 show ?thesis by simp
qed


text \<open>
  Claim C7, amended. Whenever the submitted code passes the field's own checks and the
  form has an error, that is whenever \<^verbatim>\<open>clean_code\<close> raises, the run ends with
  \<^verbatim>\<open>get_totp_secret(regenerate=True)\<close>: a new secret is generated, it is the pending
  secret of the session and it is the form's \<^verbatim>\<open>secret\<close>. A code the field refuses (a
  blank one) leaves the form and the session as they were. No run of
  \<^verbatim>\<open>AuthenticateForm.clean_code\<close> calls \<^verbatim>\<open>get_totp_secret\<close>, and it leaves the pending
  secret as it was.
\<close>

theorem enrollment_failure_regenerates_secret:
  "(\<forall>v. CharField_clean True (d ''code'') = Inr v
         \<and> form_errors (ActivateTOTPForm_full_clean E f d w) \<noteq> [] \<longrightarrow>
      secret (form_after (ActivateTOTPForm_full_clean E f d w)) =
        generate_totp_secret E (secrets_drawn w)
      \<and> session_secret (world_after (ActivateTOTPForm_full_clean E f d w)) =
        Some (generate_totp_secret E (secrets_drawn w))
      \<and> secrets_drawn (world_after (ActivateTOTPForm_full_clean E f d w)) = Suc (secrets_drawn w)
      \<and> (\<exists>evs. trace (world_after (ActivateTOTPForm_full_clean E f d w)) =
             trace w @ evs @ [GetTotpSecret True]))
   \<and> (\<forall>m. CharField_clean True (d ''code'') = Inl (ValidationError m) \<longrightarrow>
        form_errors (ActivateTOTPForm_full_clean E f d w) = [(Some ''code'', m)]
        \<and> form_after (ActivateTOTPForm_full_clean E f d w) = f
        \<and> world_after (ActivateTOTPForm_full_clean E f d w) = w)
   \<and> (fst (ActivateTOTPForm_clean_code E f code w) \<noteq> Inr code \<longrightarrow>
      secret (fst (snd (ActivateTOTPForm_clean_code E f code w))) =
        generate_totp_secret E (secrets_drawn w)
      \<and> session_secret (snd (snd (ActivateTOTPForm_clean_code E f code w))) =
        Some (generate_totp_secret E (secrets_drawn w))
      \<and> secrets_drawn (snd (snd (ActivateTOTPForm_clean_code E f code w))) = Suc (secrets_drawn w)
      \<and> (\<exists>evs. trace (snd (snd (ActivateTOTPForm_clean_code E f code w))) =
             trace w @ evs @ [GetTotpSecret True]))
   \<and> session_secret (snd (snd (AuthenticateForm_clean_code E form c w))) = session_secret w
   \<and> secrets_drawn (snd (snd (AuthenticateForm_clean_code E form c w))) = secrets_drawn w
   \<and> (\<exists>evs. trace (snd (snd (AuthenticateForm_clean_code E form c w))) = trace w @ evs
         \<and> \<not> list_ex is_get_totp_secret evs)"
proof -
  have reached: "secret (form_after (ActivateTOTPForm_full_clean E f d w)) =
        generate_totp_secret E (secrets_drawn w)
      \<and> session_secret (world_after (ActivateTOTPForm_full_clean E f d w)) =
        Some (generate_totp_secret E (secrets_drawn w))
      \<and> secrets_drawn (world_after (ActivateTOTPForm_full_clean E f d w)) = Suc (secrets_drawn w)
      \<and> (\<exists>evs. trace (world_after (ActivateTOTPForm_full_clean E f d w)) =
             trace w @ evs @ [GetTotpSecret True])"
    if v: "CharField_clean True (d ''code'') = Inr v"
      and failed: "form_errors (ActivateTOTPForm_full_clean E f d w) \<noteq> []" for v
  proof (cases "email_verified f")
    case False
    with v have "trace (world_after (ActivateTOTPForm_full_clean E f d w)) =
        trace w @ [] @ [GetTotpSecret True]"
      by (simp add: full_clean_unverified)
    then have "\<exists>evs. trace (world_after (ActivateTOTPForm_full_clean E f d w)) =
        trace w @ evs @ [GetTotpSecret True]"
      by blast
    with False v show ?thesis by (simp add: full_clean_unverified)
  next
    case True
    with v failed have rejected: "\<not> validate_totp_code E (secret f) v"
      by (auto simp: full_clean_accepted)
    with True v have "trace (world_after (ActivateTOTPForm_full_clean E f d w)) =
        trace w @ [ValidateTotpCode (secret f) v False] @ [GetTotpSecret True]"
      by (simp add: full_clean_rejected)
    then have "\<exists>evs. trace (world_after (ActivateTOTPForm_full_clean E f d w)) =
        trace w @ evs @ [GetTotpSecret True]"
      by blast
    with True rejected v show ?thesis by (simp add: full_clean_rejected)
  qed
  have blank: "form_errors (ActivateTOTPForm_full_clean E f d w) = [(Some ''code'', m)]
        \<and> form_after (ActivateTOTPForm_full_clean E f d w) = f
        \<and> world_after (ActivateTOTPForm_full_clean E f d w) = w"
    if "CharField_clean True (d ''code'') = Inl (ValidationError m)" for m
    using that by (simp add: full_clean_refused_field)
  have enrol: "fst (ActivateTOTPForm_clean_code E f code w) \<noteq> Inr code \<Longrightarrow>
      secret (fst (snd (ActivateTOTPForm_clean_code E f code w))) =
        generate_totp_secret E (secrets_drawn w)
      \<and> session_secret (snd (snd (ActivateTOTPForm_clean_code E f code w))) =
        Some (generate_totp_secret E (secrets_drawn w))
      \<and> secrets_drawn (snd (snd (ActivateTOTPForm_clean_code E f code w))) = Suc (secrets_drawn w)
      \<and> (\<exists>evs. trace (snd (snd (ActivateTOTPForm_clean_code E f code w))) =
             trace w @ evs @ [GetTotpSecret True])"
  proof (cases "email_verified f")
    case False
    then have "trace (snd (snd (ActivateTOTPForm_clean_code E f code w))) =
        trace w @ [] @ [GetTotpSecret True]"
      by (simp add: activate_unverified)
    then have "\<exists>evs. trace (snd (snd (ActivateTOTPForm_clean_code E f code w))) =
        trace w @ evs @ [GetTotpSecret True]"
      by blast
    with False show ?thesis by (simp add: activate_unverified)
  next
    case True
    assume failed: "fst (ActivateTOTPForm_clean_code E f code w) \<noteq> Inr code"
    with True have rejected: "\<not> validate_totp_code E (secret f) code"
      by (auto simp: activate_accepted)
    with True have "trace (snd (snd (ActivateTOTPForm_clean_code E f code w))) =
        trace w @ [ValidateTotpCode (secret f) code False] @ [GetTotpSecret True]"
      by (simp add: activate_rejected)
    then have "\<exists>evs. trace (snd (snd (ActivateTOTPForm_clean_code E f code w))) =
        trace w @ evs @ [GetTotpSecret True]"
      by blast
    with True rejected show ?thesis by (simp add: activate_rejected)
  qed
  from reached blank enrol authenticate_frame [of E form c w] authenticate_trace [of E form c w]
  show ?thesis by blast
qed

lemma wrong_code: "CharField_clean True ([''code'' \<mapsto> ''000000''] ''code'') = Inr ''000000''"
  by (simp add: CharField_clean_def strip_def isspace_def)

theorem enrollment_failure_regenerates_secret_witness:
  "CharField_clean True ([''code'' \<mapsto> ''000000''] ''code'') = Inr ''000000''
   \<and> form_errors (ActivateTOTPForm_full_clean demo_env
        \<lparr>atf_user = \<lparr>pk = 7\<rparr>, email_verified = True, is_bound = True, secret = ''PENDING''\<rparr>
        [''code'' \<mapsto> ''000000''] (demo_world 3)) =
       [(Some ''code'', mfa_error_message ''incorrect_code'')]
   \<and> secret (form_after (ActivateTOTPForm_full_clean demo_env
        \<lparr>atf_user = \<lparr>pk = 7\<rparr>, email_verified = True, is_bound = True, secret = ''PENDING''\<rparr>
        [''code'' \<mapsto> ''000000''] (demo_world 3))) = ''SECRET0''
   \<and> session_secret (world_after (ActivateTOTPForm_full_clean demo_env
        \<lparr>atf_user = \<lparr>pk = 7\<rparr>, email_verified = True, is_bound = True, secret = ''PENDING''\<rparr>
        [''code'' \<mapsto> ''000000''] (demo_world 3))) = Some ''SECRET0''
   \<and> session_secret (snd (snd (AuthenticateForm_clean_code demo_env demo_form ''000000'' (demo_world 3))))
        = Some ''PENDING''"
proof -
  let ?f = "\<lparr>atf_user = \<lparr>pk = 7\<rparr>, email_verified = True, is_bound = True, secret = ''PENDING''\<rparr>"
  let ?d = "[''code'' \<mapsto> ''000000'']"
  have refused: "\<not> validate_totp_code demo_env (secret ?f) ''000000''"
    by (simp add: demo_env_def)
  have errs: "form_errors (ActivateTOTPForm_full_clean demo_env ?f ?d (demo_world 3)) =
       [(Some ''code'', mfa_error_message ''incorrect_code'')]"
    using full_clean_rejected [where d = ?d, OF wrong_code _ refused, of "demo_world 3"] by simp
  then have failed: "form_errors (ActivateTOTPForm_full_clean demo_env ?f ?d (demo_world 3)) \<noteq> []"
    by simp
  have gen: "generate_totp_secret demo_env (secrets_drawn (demo_world 3)) = ''SECRET0''"
    by (simp add: demo_env_def demo_world_def str_nat.simps digit_def)
  have pending: "session_secret (demo_world 3) = Some ''PENDING''"
    by (simp add: demo_world_def)
  from enrollment_failure_regenerates_secret
         [where d = ?d and E = demo_env and f = ?f and w = "demo_world 3",
          THEN conjunct1, rule_format, OF conjI, OF wrong_code failed] gen
  have regen: "secret (form_after (ActivateTOTPForm_full_clean demo_env ?f ?d (demo_world 3))) = ''SECRET0''
      \<and> session_secret (world_after (ActivateTOTPForm_full_clean demo_env ?f ?d (demo_world 3))) =
          Some ''SECRET0''"
    by simp
  from authenticate_frame [of demo_env demo_form "''000000''" "demo_world 3"] pending
  have "session_secret (snd (snd (AuthenticateForm_clean_code demo_env demo_form ''000000'' (demo_world 3))))
        = Some ''PENDING''"
    by simp
  with wrong_code errs regen show ?thesis by simp
qed

text \<open>
  Claim C10. For a user with an unverified email address, \<^verbatim>\<open>ActivateTOTPForm.clean_code\<close>
  raises \<^verbatim>\<open>unverified_email\<close> without a call of \<^verbatim>\<open>validate_totp_code\<close>; its only call
  is \<^verbatim>\<open>get_totp_secret(regenerate=True)\<close>, whose secret replaces the form's and the
  session's.
\<close>

theorem unverified_email_checked_before_code:
  assumes unverified: "list_ex (\<lambda>e. email_user e = pk u \<and> \<not> verified e) (email_addresses w)"
    and init: "ActivateTOTPForm_init E u bound w = (f, w1)"
  shows
    "ActivateTOTPForm_clean_code E f code w1 =
       (Inl (ValidationError (mfa_error_message ''unverified_email'')),
        f\<lparr>secret := generate_totp_secret E (secrets_drawn w1)\<rparr>,
        w1\<lparr>session_secret := Some (generate_totp_secret E (secrets_drawn w1)),
           secrets_drawn := Suc (secrets_drawn w1),
           trace := trace w1 @ [GetTotpSecret True]\<rparr>)
     \<and> (\<exists>evs. trace (snd (snd (ActivateTOTPForm_clean_code E f code w1))) = trace w1 @ evs
           \<and> \<not> list_ex is_validate_totp_code evs)"
proof -
  from init_email_verified [OF init] unverified have "\<not> email_verified f"
    by simp
  then have result: "ActivateTOTPForm_clean_code E f code w1 =
       (Inl (ValidationError (mfa_error_message ''unverified_email'')),
        f\<lparr>secret := generate_totp_secret E (secrets_drawn w1)\<rparr>,
        w1\<lparr>session_secret := Some (generate_totp_secret E (secrets_drawn w1)),
           secrets_drawn := Suc (secrets_drawn w1),
           trace := trace w1 @ [GetTotpSecret True]\<rparr>)"
    by (rule activate_unverified)
  then have "trace (snd (snd (ActivateTOTPForm_clean_code E f code w1))) =
        trace w1 @ [GetTotpSecret True] \<and> \<not> list_ex is_validate_totp_code [GetTotpSecret True]"
    by simp
  then have "\<exists>evs. trace (snd (snd (ActivateTOTPForm_clean_code E f code w1))) = trace w1 @ evs
           \<and> \<not> list_ex is_validate_totp_code evs"
    by blast
  with result show ?thesis by blast
qed

theorem unverified_email_checked_before_code_witness:
  "list_ex (\<lambda>e. email_user e = pk \<lparr>pk = 8\<rparr> \<and> \<not> verified e) (email_addresses (demo_world 3))
   \<and> ActivateTOTPForm_init demo_env \<lparr>pk = 8\<rparr> True (demo_world 3) =
     (\<lparr>atf_user = \<lparr>pk = 8\<rparr>, email_verified = False, is_bound = True, secret = ''PENDING''\<rparr>,
      (demo_world 3)\<lparr>trace := [QueryEmailAddresses 8, GetTotpSecret False]\<rparr>)
   \<and> fst (ActivateTOTPForm_clean_code demo_env
        \<lparr>atf_user = \<lparr>pk = 8\<rparr>, email_verified = False, is_bound = True, secret = ''PENDING''\<rparr>
        ''PENDING'' ((demo_world 3)\<lparr>trace := [QueryEmailAddresses 8, GetTotpSecret False]\<rparr>)) =
       Inl (ValidationError (mfa_error_message ''unverified_email''))
   \<and> trace (snd (snd (ActivateTOTPForm_clean_code demo_env
        \<lparr>atf_user = \<lparr>pk = 8\<rparr>, email_verified = False, is_bound = True, secret = ''PENDING''\<rparr>
        ''PENDING'' ((demo_world 3)\<lparr>trace := [QueryEmailAddresses 8, GetTotpSecret False]\<rparr>)))) =
       [QueryEmailAddresses 8, GetTotpSecret False, GetTotpSecret True]
   \<and> secret (fst (snd (ActivateTOTPForm_clean_code demo_env
        \<lparr>atf_user = \<lparr>pk = 8\<rparr>, email_verified = False, is_bound = True, secret = ''PENDING''\<rparr>
        ''PENDING'' ((demo_world 3)\<lparr>trace := [QueryEmailAddresses 8, GetTotpSecret False]\<rparr>)))) =
       ''SECRET0''"
proof -
  have e8: "list_ex (\<lambda>e. email_user e = pk \<lparr>pk = 8\<rparr> \<and> \<not> verified e) (email_addresses (demo_world 3))"
    by (simp add: demo_world_def demo_emails_def)
  have i8: "ActivateTOTPForm_init demo_env \<lparr>pk = 8\<rparr> True (demo_world 3) =
     (\<lparr>atf_user = \<lparr>pk = 8\<rparr>, email_verified = False, is_bound = True, secret = ''PENDING''\<rparr>,
      (demo_world 3)\<lparr>trace := [QueryEmailAddresses 8, GetTotpSecret False]\<rparr>)"
    by (simp add: ActivateTOTPForm_init_def get_totp_secret_def log_def demo_world_def
        demo_emails_def Let_def)
  have gen: "generate_totp_secret demo_env 0 = ''SECRET0''"
    by (simp add: demo_env_def str_nat.simps digit_def)
  have drawn: "secrets_drawn (demo_world 3) = 0" "trace (demo_world 3) = []"
    by (simp_all add: demo_world_def)
  from unverified_email_checked_before_code [OF e8 i8, of "''PENDING''", THEN conjunct1]
    e8 i8 gen drawn
  show ?thesis by simp
qed

section \<open>The WebAuthn forms\<close>

lemma rsplit_sep_sign:
  assumes "CHR '':'' \<notin> set sg"
  shows "rsplit_sep (v @ '':'' @ sg) = (v, sg)"
proof -
  have all: "\<And>x. x \<in> set (rev sg) \<Longrightarrow> x \<noteq> CHR '':''"
    using assms by auto
  have t: "takeWhile (\<lambda>c. c \<noteq> CHR '':'') (rev sg @ CHR '':'' # rev v) = rev sg"
    using takeWhile_append2 [of "rev sg" "\<lambda>c. c \<noteq> CHR '':''" "CHR '':'' # rev v"] all by simp
  have d: "dropWhile (\<lambda>c. c \<noteq> CHR '':'') (rev sg @ CHR '':'' # rev v) = CHR '':'' # rev v"
    using dropWhile_append2 [of "rev sg" "\<lambda>c. c \<noteq> CHR '':''" "CHR '':'' # rev v"] all by simp
  show ?thesis by (simp add: rsplit_sep_def t d)
qed

lemma unsign_sign:
  "CHR '':'' \<notin> set (signature S v) \<Longrightarrow> Signer_unsign S (Signer_sign S v) = Some v"
  using rsplit_sep_sign [of "signature S v" v]
  by (simp add: Signer_unsign_def Signer_sign_def)

text \<open>
  Claim C3, as stated, asks \<^verbatim>\<open>clean_signed_state\<close> to fail with \<^verbatim>\<open>Tampered form.\<close> also when
  the payload cannot be deserialized. The handler catches \<^verbatim>\<open>BadSignature\<close> only: for the
  token below the signature verifies, \<^verbatim>\<open>json.loads\<close> raises, and what leaves the method is
  the \<^verbatim>\<open>JSONDecodeError\<close>.
\<close>

theorem decode_error_is_not_tampered_state:
  "Signer_sign demo_signer ''not json'' = ''not json:27322''
   \<and> Signer_unsign demo_signer ''not json:27322'' = Some ''not json''
   \<and> json_loads demo_webauthn ''not json'' = None
   \<and> clean_signed_state demo_webauthn (demo_signed_form ''not json:27322'') = Inl JSONDecodeError
   \<and> clean_signed_state demo_webauthn (demo_signed_form ''not json:27322'') \<noteq>
       Inl (ValidationError (Literal ''Tampered form.''))"
  by (simp add: clean_signed_state_def demo_signed_form_def Signer_sign_def Signer_unsign_def
      rsplit_sep_def demo_webauthn_def demo_signer_def demo_signature_def demo_loads_def
      str_nat.simps digit_def)

text \<open>
  Claim C3, amended. For every submitted token, \<^verbatim>\<open>clean_signed_state\<close> fails with
  \<^verbatim>\<open>Tampered form.\<close> exactly when the signature does not verify, that is when the token
  holds no separator or the part after the last separator is the signature of the part
  before it under no key; it returns a state only for a token whose signature verifies.
  The payload of such a token goes to \<^verbatim>\<open>json.loads\<close>, whose decoded value is returned and
  whose \<^verbatim>\<open>JSONDecodeError\<close> is not turned into \<^verbatim>\<open>Tampered form.\<close>
\<close>

theorem clean_signed_state_rejects_bad_signature:
  assumes submitted: "cleaned_data f ''signed_state'' = Some (Str t)"
  shows
    "(clean_signed_state W f = Inl (ValidationError (Literal ''Tampered form.'')))
        = (Signer_unsign (the_signer W) t = None)
     \<and> (Signer_unsign (the_signer W) t = None)
        = (CHR '':'' \<notin> set t
           \<or> \<not> list_ex (\<lambda>sg. sg (fst (rsplit_sep t)) = snd (rsplit_sep t))
                 (signature (the_signer W) # fallback_signatures (the_signer W)))
     \<and> (\<forall>v. clean_signed_state W f = Inr v \<longrightarrow> Signer_unsign (the_signer W) t \<noteq> None)
     \<and> (\<forall>payload. Signer_unsign (the_signer W) t = Some payload \<longrightarrow>
          clean_signed_state W f =
            (case json_loads W payload of None \<Rightarrow> Inl JSONDecodeError | Some v \<Rightarrow> Inr (Json v)))"
proof -
  have a: "(clean_signed_state W f = Inl (ValidationError (Literal ''Tampered form.'')))
        = (Signer_unsign (the_signer W) t = None)"
    using submitted by (simp add: clean_signed_state_def split: option.splits)
  have b: "(Signer_unsign (the_signer W) t = None)
        = (CHR '':'' \<notin> set t
           \<or> \<not> list_ex (\<lambda>sg. sg (fst (rsplit_sep t)) = snd (rsplit_sep t))
                 (signature (the_signer W) # fallback_signatures (the_signer W)))"
    by (simp add: Signer_unsign_def Let_def split: prod.splits)
  have c: "clean_signed_state W f = Inr v \<Longrightarrow> Signer_unsign (the_signer W) t \<noteq> None" for v
    using submitted by (auto simp: clean_signed_state_def split: option.splits)
  have d: "Signer_unsign (the_signer W) t = Some payload \<Longrightarrow>
          clean_signed_state W f =
            (case json_loads W payload of None \<Rightarrow> Inl JSONDecodeError | Some v \<Rightarrow> Inr (Json v))"
    for payload
    using submitted by (simp add: clean_signed_state_def)
  from a b c d show ?thesis by blast
qed

theorem clean_signed_state_rejects_bad_signature_witness:
  "cleaned_data (demo_signed_form ''[1]:27322'') ''signed_state'' = Some (Str ''[1]:27322'')
   \<and> Signer_unsign (the_signer demo_webauthn) ''[1]:27322'' = None
   \<and> clean_signed_state demo_webauthn (demo_signed_form ''[1]:27322'') =
       Inl (ValidationError (Literal ''Tampered form.''))
   \<and> cleaned_data (demo_signed_form ''[1]:35516'') ''signed_state'' = Some (Str ''[1]:35516'')
   \<and> Signer_unsign (the_signer demo_webauthn) ''[1]:35516'' = Some ''[1]''
   \<and> clean_signed_state demo_webauthn (demo_signed_form ''[1]:35516'') = Inr (Json (JArray [JNumber 1]))"
proof -
  have h1: "cleaned_data (demo_signed_form ''[1]:27322'') ''signed_state'' = Some (Str ''[1]:27322'')"
    and h2: "cleaned_data (demo_signed_form ''[1]:35516'') ''signed_state'' = Some (Str ''[1]:35516'')"
    by (simp_all add: demo_signed_form_def)
  have u1: "Signer_unsign (the_signer demo_webauthn) ''[1]:27322'' = None"
    by (simp add: Signer_unsign_def rsplit_sep_def demo_webauthn_def demo_signer_def
        demo_signature_def str_nat.simps digit_def)
  have u2: "Signer_unsign (the_signer demo_webauthn) ''[1]:35516'' = Some ''[1]''"
    by (simp add: Signer_unsign_def rsplit_sep_def demo_webauthn_def demo_signer_def
        demo_signature_def str_nat.simps digit_def)
  have l: "json_loads demo_webauthn ''[1]'' = Some (JArray [JNumber 1])"
    by (simp add: demo_webauthn_def demo_loads_def)
  from clean_signed_state_rejects_bad_signature [OF h1, of demo_webauthn] u1
  have r1: "clean_signed_state demo_webauthn (demo_signed_form ''[1]:27322'') =
       Inl (ValidationError (Literal ''Tampered form.''))"
    by blast
  from clean_signed_state_rejects_bad_signature [OF h2, of demo_webauthn] u2 l
  have r2: "clean_signed_state demo_webauthn (demo_signed_form ''[1]:35516'') =
       Inr (Json (JArray [JNumber 1]))"
    by simp
  from h1 h2 u1 u2 r1 r2 show ?thesis by simp
qed

text \<open>
  Claim C4. \<^verbatim>\<open>full_clean\<close> of an \<^verbatim>\<open>AuthenticateWebAuthnForm\<close> bound to data without a
  \<^verbatim>\<open>credential\<close> records the field's \<^verbatim>\<open>required\<close> error, which removes the key from
  \<^verbatim>\<open>cleaned_data\<close>; \<^verbatim>\<open>clean\<close> then reads \<^verbatim>\<open>cleaned_data["credential"]\<close> and the
  \<^verbatim>\<open>KeyError\<close> leaves \<^verbatim>\<open>full_clean\<close> uncaught, whatever the collaborators are. A
  credential that is not JSON leaves it as a \<^verbatim>\<open>JSONDecodeError\<close>.
\<close>

theorem AuthenticateWebAuthnForm_missing_credential_raises:
  "AuthenticateWebAuthnForm_full_clean W u
       \<lparr>data = Map.empty, cleaned_data = Map.empty, errors = [], calls = []\<rparr> =
     (Some (KeyError ''credential''),
      \<lparr>data = Map.empty, cleaned_data = Map.empty,
       errors = [(Some ''signed_state'', Literal ''Tampered form.''),
                 (Some ''credential'', Gettext ''This field is required.'')],
       calls = [AddError (Some ''signed_state'') (Literal ''Tampered form.''),
                AddError (Some ''credential'') (Gettext ''This field is required.'')]\<rparr>)
   \<and> fst (AuthenticateWebAuthnForm_full_clean demo_webauthn u
            (demo_bound_form [''signed_state'' \<mapsto> ''[1]:35516'', ''credential'' \<mapsto> ''not json'']))
       = Some JSONDecodeError"
  by (simp add: AuthenticateWebAuthnForm_full_clean_def clean_field_def CharField_clean_def
      clean_signed_state_def clean_credential_def Signer_unsign_def rsplit_sep_def add_error_def
      clean_form_def AuthenticateWebAuthnForm_clean_def strip_def isspace_def
      demo_bound_form_def demo_webauthn_def demo_signer_def demo_signature_def demo_loads_def
      str_nat.simps digit_def Let_def)

lemma passwordless_check_unverified:
  assumes "cleaned_data f ''credential'' = Some (Credential c)" "credential_truthy W c"
    "cleaned_data f ''passwordless'' = Some (Bool True)" "\<not> is_user_verified W c"
  shows "passwordless_check W f =
     (None, add_error None (Gettext ''This key does not support passwordless operation.'') f)"
  using assms by (simp add: passwordless_check_def truth_opt_def)

lemma add_error_None:
  "cleaned_data (add_error None m f) = cleaned_data f"
  "errors (add_error None m f) = errors f @ [(None, m)]"
  "calls (add_error None m f) = calls f @ [AddError None m]"
  by (simp_all add: add_error_def)

lemma AddWebAuthnForm_clean_unverified_with_state:
  assumes "cleaned_data f ''credential'' = Some (Credential c)" "credential_truthy W c"
    "cleaned_data f ''passwordless'' = Some (Bool True)" "\<not> is_user_verified W c"
    "cleaned_data f ''signed_state'' = Some (Json s)" "json_truthy W s"
  shows "AddWebAuthnForm_clean W f =
     (case complete_registration W s c of
        Inl e \<Rightarrow>
          (Inl e, f\<lparr>errors := errors f @ [(None, Gettext ''This key does not support passwordless operation.'')],
                    calls := calls f @ [AddError None (Gettext ''This key does not support passwordless operation.''),
                                        CompleteRegistration s c]\<rparr>)
      | Inr ad \<Rightarrow>
          (Inr ((cleaned_data f)(''authenticator_data'' \<mapsto> AuthenticatorData ad)),
           f\<lparr>cleaned_data := (cleaned_data f)(''authenticator_data'' \<mapsto> AuthenticatorData ad),
             errors := errors f @ [(None, Gettext ''This key does not support passwordless operation.'')],
             calls := calls f @ [AddError None (Gettext ''This key does not support passwordless operation.''),
                                 CompleteRegistration s c]\<rparr>))"
  using assms
  by (simp add: AddWebAuthnForm_clean_def passwordless_check_unverified truth_opt_def
      add_error_def Let_def split: sum.splits)

lemma AddWebAuthnForm_clean_error_recorded:
  assumes "cleaned_data f ''credential'' = Some (Credential c)" "credential_truthy W c"
    "cleaned_data f ''passwordless'' = Some (Bool True)" "\<not> is_user_verified W c"
  shows "errors (snd (AddWebAuthnForm_clean W f)) =
      errors f @ [(None, Gettext ''This key does not support passwordless operation.'')]"
  using assms
  by (simp add: AddWebAuthnForm_clean_def passwordless_check_unverified truth_opt_def
      add_error_def Let_def split: sum.splits option.splits pyval.splits)

lemma clean_form_errors:
  "\<exists>rest. errors (snd (clean_form cm f)) = errors (snd (cm f)) @ rest"
  by (cases "cm f") (auto simp: clean_form_def add_error_def split: sum.splits exn.splits)

lemma demo_cleaned_hyps:
  "cleaned_data demo_cleaned ''credential'' = Some (Credential \<lparr>user_verified = False\<rparr>)"
  "credential_truthy demo_webauthn \<lparr>user_verified = False\<rparr>"
  "cleaned_data demo_cleaned ''passwordless'' = Some (Bool True)"
  "\<not> is_user_verified demo_webauthn \<lparr>user_verified = False\<rparr>"
  "cleaned_data demo_cleaned ''signed_state'' = Some (Json (JArray [JNumber 1]))"
  "json_truthy demo_webauthn (JArray [JNumber 1])"
  "complete_registration demo_webauthn (JArray [JNumber 1]) \<lparr>user_verified = False\<rparr> =
     Inr ''authenticator data''"
  by (simp_all add: demo_cleaned_def demo_webauthn_def)

text \<open>
  Claim C5. When \<^verbatim>\<open>AddWebAuthnForm.clean\<close> finds a credential, \<^verbatim>\<open>passwordless\<close> true and
  the credential's user-verification flag false, it records the non-field error
  \<^verbatim>\<open>This key does not support passwordless operation.\<close>, so the form is not valid. The
  error is the form's own: when \<^verbatim>\<open>complete_registration\<close> accepts the credential,
  \<^verbatim>\<open>clean\<close> raises nothing and this error is the only one added; when it raises a
  validation error, that error is recorded after it, as a second one.
\<close>

theorem passwordless_requires_user_verification:
  assumes cred: "cleaned_data f ''credential'' = Some (Credential c)"
    and truthy: "credential_truthy W c"
    and requested: "cleaned_data f ''passwordless'' = Some (Bool True)"
    and unverified: "\<not> is_user_verified W c"
  shows
    "errors (snd (AddWebAuthnForm_clean W f)) =
       errors f @ [(None, Gettext ''This key does not support passwordless operation.'')]
     \<and> \<not> is_valid (snd (clean_form (AddWebAuthnForm_clean W) f))
     \<and> (\<forall>s ad. cleaned_data f ''signed_state'' = Some (Json s) \<and> json_truthy W s
            \<and> complete_registration W s c = Inr ad \<longrightarrow>
          fst (AddWebAuthnForm_clean W f) =
            Inr ((cleaned_data f)(''authenticator_data'' \<mapsto> AuthenticatorData ad))
          \<and> errors (snd (clean_form (AddWebAuthnForm_clean W) f)) =
              errors f @ [(None, Gettext ''This key does not support passwordless operation.'')])
     \<and> (\<forall>s m. cleaned_data f ''signed_state'' = Some (Json s) \<and> json_truthy W s
            \<and> complete_registration W s c = Inl (ValidationError m) \<longrightarrow>
          errors (snd (clean_form (AddWebAuthnForm_clean W) f)) =
              errors f @ [(None, Gettext ''This key does not support passwordless operation.''),
                          (None, m)])"
proof -
  let ?msg = "Gettext ''This key does not support passwordless operation.''"
  have recorded: "errors (snd (AddWebAuthnForm_clean W f)) = errors f @ [(None, ?msg)]"
    using assms by (rule AddWebAuthnForm_clean_error_recorded)
  obtain rest where
    "errors (snd (clean_form (AddWebAuthnForm_clean W) f)) =
       errors (snd (AddWebAuthnForm_clean W f)) @ rest"
    using clean_form_errors by blast
  with recorded have invalid: "\<not> is_valid (snd (clean_form (AddWebAuthnForm_clean W) f))"
    by (simp add: is_valid_def)
  have accepted: "fst (AddWebAuthnForm_clean W f) =
            Inr ((cleaned_data f)(''authenticator_data'' \<mapsto> AuthenticatorData ad))
          \<and> errors (snd (clean_form (AddWebAuthnForm_clean W) f)) = errors f @ [(None, ?msg)]"
    if "cleaned_data f ''signed_state'' = Some (Json s)" "json_truthy W s"
       "complete_registration W s c = Inr ad" for s ad
    using that AddWebAuthnForm_clean_unverified_with_state [OF assms that(1,2)]
    by (simp add: clean_form_def)
  have refused: "errors (snd (clean_form (AddWebAuthnForm_clean W) f)) =
              errors f @ [(None, ?msg), (None, m)]"
    if "cleaned_data f ''signed_state'' = Some (Json s)" "json_truthy W s"
       "complete_registration W s c = Inl (ValidationError m)" for s m
    using that AddWebAuthnForm_clean_unverified_with_state [OF assms that(1,2)]
    by (simp add: clean_form_def add_error_def)
  from recorded invalid accepted refused show ?thesis by blast
qed

theorem passwordless_requires_user_verification_witness:
  "cleaned_data demo_cleaned ''credential'' = Some (Credential \<lparr>user_verified = False\<rparr>)
   \<and> credential_truthy demo_webauthn \<lparr>user_verified = False\<rparr>
   \<and> cleaned_data demo_cleaned ''passwordless'' = Some (Bool True)
   \<and> \<not> is_user_verified demo_webauthn \<lparr>user_verified = False\<rparr>
   \<and> complete_registration demo_webauthn (JArray [JNumber 1]) \<lparr>user_verified = False\<rparr> =
       Inr ''authenticator data''
   \<and> errors (snd (clean_form (AddWebAuthnForm_clean demo_webauthn) demo_cleaned)) =
       [(None, Gettext ''This key does not support passwordless operation.'')]
   \<and> \<not> is_valid (snd (clean_form (AddWebAuthnForm_clean demo_webauthn) demo_cleaned))"
proof -
  note h = demo_cleaned_hyps
  from passwordless_requires_user_verification [OF h(1-4)] h(5-7)
  have "errors (snd (clean_form (AddWebAuthnForm_clean demo_webauthn) demo_cleaned)) =
       errors demo_cleaned @ [(None, Gettext ''This key does not support passwordless operation.'')]
     \<and> \<not> is_valid (snd (clean_form (AddWebAuthnForm_clean demo_webauthn) demo_cleaned))"
    by blast
  moreover have "errors demo_cleaned = []"
    by (simp add: demo_cleaned_def)
  ultimately show ?thesis using h by simp
qed

text \<open>
  Claim C9. In the situation of C5, with a decoded state that is true as well,
  \<^verbatim>\<open>AddWebAuthnForm.clean\<close> first records the passwordless error and then calls
  \<^verbatim>\<open>complete_registration(state, credential)\<close>, whose answer decides what \<^verbatim>\<open>clean\<close> returns
  or raises.
\<close>

theorem passwordless_error_does_not_stop_registration:
  assumes cred: "cleaned_data f ''credential'' = Some (Credential c)"
    and truthy: "credential_truthy W c"
    and requested: "cleaned_data f ''passwordless'' = Some (Bool True)"
    and unverified: "\<not> is_user_verified W c"
    and state: "cleaned_data f ''signed_state'' = Some (Json s)"
    and state_truthy: "json_truthy W s"
  shows
    "calls (snd (AddWebAuthnForm_clean W f)) =
       calls f @ [AddError None (Gettext ''This key does not support passwordless operation.''),
                  CompleteRegistration s c]
     \<and> fst (AddWebAuthnForm_clean W f) =
         (case complete_registration W s c of
            Inl e \<Rightarrow> Inl e
          | Inr ad \<Rightarrow> Inr ((cleaned_data f)(''authenticator_data'' \<mapsto> AuthenticatorData ad)))"
  using AddWebAuthnForm_clean_unverified_with_state [OF assms]
  by (simp split: sum.splits)

theorem passwordless_error_does_not_stop_registration_witness:
  "cleaned_data demo_cleaned ''credential'' = Some (Credential \<lparr>user_verified = False\<rparr>)
   \<and> cleaned_data demo_cleaned ''passwordless'' = Some (Bool True)
   \<and> \<not> is_user_verified demo_webauthn \<lparr>user_verified = False\<rparr>
   \<and> cleaned_data demo_cleaned ''signed_state'' = Some (Json (JArray [JNumber 1]))
   \<and> json_truthy demo_webauthn (JArray [JNumber 1])
   \<and> calls (snd (AddWebAuthnForm_clean demo_webauthn demo_cleaned)) =
       [AddError None (Gettext ''This key does not support passwordless operation.''),
        CompleteRegistration (JArray [JNumber 1]) \<lparr>user_verified = False\<rparr>]
   \<and> errors (snd (AddWebAuthnForm_clean demo_webauthn demo_cleaned)) =
       [(None, Gettext ''This key does not support passwordless operation.'')]"
proof -
  note h = demo_cleaned_hyps
  from passwordless_error_does_not_stop_registration [OF h(1-6), THEN conjunct1]
  have "calls (snd (AddWebAuthnForm_clean demo_webauthn demo_cleaned)) =
       calls demo_cleaned @ [AddError None (Gettext ''This key does not support passwordless operation.''),
        CompleteRegistration (JArray [JNumber 1]) \<lparr>user_verified = False\<rparr>]" .
  moreover have "calls demo_cleaned = []" "errors demo_cleaned = []"
    by (simp_all add: demo_cleaned_def)
  moreover have "errors (snd (AddWebAuthnForm_clean demo_webauthn demo_cleaned)) =
       errors demo_cleaned @ [(None, Gettext ''This key does not support passwordless operation.'')]"
    using h(1-4) by (rule AddWebAuthnForm_clean_error_recorded)
  ultimately show ?thesis using h by simp
qed

end
